theory Spec2Isabelle
  imports Main "HOL-Library.Word"
begin

section \<open>The client invocation pipeline of tRPC-Go (src/client/client.go)\<close>

text \<open>
  The development embeds the functions of \<^verbatim>\<open>client.go\<close> as HOL functions over an
  explicit per-call state. Go's \<^verbatim>\<open>error\<close> interface is a value of type
  \<open>error option\<close> (\<open>None\<close> is \<^verbatim>\<open>nil\<close>), a function returning
  \<^verbatim>\<open>(T, error)\<close> returns a pair or a sum, and the objects a call shares by pointer
  (the message, the options, the response body) are fields of the state that every
  function takes and returns. Every call of a pluggable collaborator (selector, codec,
  transport, serializer, compressor, the \<^verbatim>\<open>fixTimeout\<close> adapter) appends an event
  to the state's trace, so that "is invoked", "is not invoked" and "happens after" are
  statements about the trace. Tracing spans (package rpcz) only observe the call and are
  left out.
\<close>

subsection \<open>Errors\<close>

text \<open>
  Package errs is not part of the sources at hand. Its error struct carries a type, a
  numeric code and a message; the numeric values of the named codes are unknown here, so
  the codes that \<^verbatim>\<open>client.go\<close> names are constructors (pairwise distinct, as the
  constants are) and every other code is \<open>RetOther n\<close>.
\<close>

datatype error_type = ErrorTypeFramework | ErrorTypeOther int

datatype ret_code =
    RetClientTimeout
  | RetClientFullLinkTimeout
  | RetClientConnectFail
  | RetClientEncodeFail
  | RetClientDecodeFail
  | RetClientRouteErr
  | RetClientNetErr
  | RetClientCanceled
  | RetOther int

record errs_Error =
  Type :: error_type
  Code :: ret_code
  Msg :: string

text \<open>
  A Go error value: the sentinel \<^verbatim>\<open>errs.ErrClientNoResponse\<close> (compared by identity
  in \<^verbatim>\<open>callFunc\<close>, hence a constructor of its own), a \<^verbatim>\<open>*errs.Error\<close>, or any
  other error, given by its text.
\<close>

datatype error = ErrClientNoResponse | ErrsError errs_Error | GoError string

text \<open>Modelled from the spec: \<^verbatim>\<open>errs.NewFrameError\<close> is not in the sources; the spec
  describes a framework error as carrying \<^verbatim>\<open>Type=framework\<close>, a numeric code and a
  descriptive message.\<close>

definition NewFrameError :: "ret_code \<Rightarrow> string \<Rightarrow> error" where
  "NewFrameError code m = ErrsError \<lparr>Type = ErrorTypeFramework, Code = code, Msg = m\<rparr>"

text \<open>Modelled from the spec: \<^verbatim>\<open>mayConvert2FullLinkTimeout\<close> is defined outside
  \<^verbatim>\<open>client.go\<close>; the spec describes it as the adapter that, on observing a
  \<^verbatim>\<open>ClientTimeout\<close> framework error, re-tags it as \<^verbatim>\<open>ClientFullLinkTimeout\<close>.\<close>

definition mayConvert2FullLinkTimeout :: "error option \<Rightarrow> error option" where
  "mayConvert2FullLinkTimeout err =
     (case err of
        Some (ErrsError e) \<Rightarrow>
          if Type e = ErrorTypeFramework \<and> Code e = RetClientTimeout
          then Some (ErrsError (e\<lparr>Code := RetClientFullLinkTimeout\<rparr>))
          else err
      | _ \<Rightarrow> err)"

text \<open>The value of \<^verbatim>\<open>ctx.Err()\<close> and its text (Go's package context).\<close>

datatype ctx_error = Canceled | DeadlineExceeded

fun ctx_error_Error :: "ctx_error \<Rightarrow> string" where
  "ctx_error_Error Canceled = ''context canceled''"
| "ctx_error_Error DeadlineExceeded = ''context deadline exceeded''"

subsection \<open>Data model\<close>

type_synonym bytes = "8 word list"

text \<open>Request and response bodies are \<^verbatim>\<open>interface{}\<close> values the client never
  inspects.\<close>

type_synonym body = string

text \<open>\<^verbatim>\<open>registry.Node\<close>; times and durations are nanosecond counts.\<close>

record Node =
  ServiceName :: string
  ContainerName :: string
  Address :: string
  Network :: string
  Protocol :: string
  SetName :: string
  Weight :: int
  CostTime :: int
  EnvKey :: string
  Metadata :: "(string \<times> string) list"

text \<open>
  A \<^verbatim>\<open>net.Addr\<close> interface value holds a pointer of one of three concrete types. The
  pointer may be \<^verbatim>\<open>nil\<close> (\<open>None\<close>) while the interface value is not: this is what
  \<^verbatim>\<open>addr, _ = net.ResolveTCPAddr(...)\<close> stores in a \<^verbatim>\<open>net.Addr\<close> variable when the
  resolution fails. A resolved address is given by its text.
\<close>

datatype net_Addr =
    TCPAddr "string option"
  | UDPAddr "string option"
  | UnixAddr "string option"

text \<open>The \<^verbatim>\<open>String\<close> methods of Go's package net print a nil pointer as
  \<^verbatim>\<open><nil>\<close>.\<close>

fun net_Addr_String :: "net_Addr \<Rightarrow> string" where
  "net_Addr_String (TCPAddr p) = (case p of None \<Rightarrow> ''<nil>'' | Some s \<Rightarrow> s)"
| "net_Addr_String (UDPAddr p) = (case p of None \<Rightarrow> ''<nil>'' | Some s \<Rightarrow> s)"
| "net_Addr_String (UnixAddr p) = (case p of None \<Rightarrow> ''<nil>'' | Some s \<Rightarrow> s)"

text \<open>
  The per-call message behind the \<^verbatim>\<open>codec.Msg\<close> interface: one field for every
  attribute that \<^verbatim>\<open>client.go\<close> reads or writes through its accessors. An interface
  or pointer attribute is an option, \<open>None\<close> being \<^verbatim>\<open>nil\<close>.
\<close>

record Msg =
  callerServiceName :: string
  calleeServiceName :: string
  calleeMethod :: string
  calleeContainerName :: string
  calleeSetName :: string
  namespace :: string
  envName :: string
  envTransfer :: string
  setName :: string
  serializationType :: int
  compressType :: int
  requestTimeout :: int
  remoteAddr :: "net_Addr option"
  clientReqHead :: "string option"
  clientRspHead :: "string option"
  commonMeta :: "(string \<rightharpoonup> string) option"
  clientMetaData :: "(string \<rightharpoonup> bytes) option"
  callType :: int
  clientRspErr :: "error option"

datatype select_option =
    WithSourceNamespace string
  | WithSourceServiceName string
  | WithSourceEnvName string
  | WithEnvTransfer string
  | WithSourceSetName string
  | WithContext
  | OtherSelectOption string

datatype call_option = WithMsg | WithMultiplexed bool | OtherCallOption string

text \<open>The pluggable handles. A codec and a transport receive the message and may
  change it; each returns Go's pair of a buffer and an error.\<close>

record Codec =
  Encode :: "Msg \<Rightarrow> bytes \<Rightarrow> Msg \<times> bytes \<times> error option"
  Decode :: "Msg \<Rightarrow> bytes \<Rightarrow> Msg \<times> bytes \<times> error option"

record Transport =
  RoundTrip :: "Msg \<Rightarrow> bytes \<Rightarrow> call_option list \<Rightarrow> Msg \<times> bytes \<times> error option"

record Selector =
  Select :: "string \<Rightarrow> select_option list \<Rightarrow> error + Node"

text \<open>An entry of a \<^verbatim>\<open>filter.ClientChain\<close>: the package's own
  \<^verbatim>\<open>selectorFilter\<close>, or a user interceptor, named by an index into the table of
  interceptors.\<close>

datatype filter = SelectorFilter | UserFilter nat

text \<open>
  The fields of \<^verbatim>\<open>Options\<close> that \<^verbatim>\<open>client.go\<close> uses. \<open>ServiceName_opt\<close> and
  \<open>Network_opt\<close> are the fields \<^verbatim>\<open>ServiceName\<close> and \<^verbatim>\<open>Network\<close>, renamed apart
  from the node's.
\<close>

record Options =
  ServiceName_opt :: string
  CallerServiceName :: string
  CalleeMethod :: string
  endpoint :: string
  Network_opt :: string
  MetaData :: "(string \<times> bytes) list"
  SerializationType :: int
  CompressType :: int
  CurrentSerializationType :: int
  CurrentCompressType :: int
  ReqHead :: "string option"
  RspHead :: "string option"
  CallType :: int
  attachment :: "string option"
  Timeout :: int
  DisableFilter :: bool
  Filters :: "filter list"
  FilterNames :: "string list"
  selectorFilterPosFixed :: bool
  fixTimeout :: "error option \<Rightarrow> error option"
  Codec :: "Codec option"
  Transport :: Transport
  Selector :: Selector
  EnableMultiplexed :: bool
  CallOptions :: "call_option list"
  SelectOptions :: "select_option list"
  DisableServiceRouter :: bool
  shouldErrReportToSelector :: "error option \<Rightarrow> bool"

text \<open>The calls of collaborators, in the order in which they happen. The event of
  \<^verbatim>\<open>fixTimeout\<close> records the error passed in and the error returned.\<close>

datatype event =
    EvIncr string
  | EvSelect string "select_option list"
  | EvReport Node int "error option"
  | EvNodeSet Node string int
  | EvFixTimeout "error option" "error option"
  | EvMarshal int body
  | EvCompress int bytes
  | EvEncode bytes
  | EvRoundTrip bytes "call_option list"
  | EvDecode bytes
  | EvDecompress int bytes
  | EvUnmarshal int bytes

text \<open>
  The state of one call: what the context carries (the message, the options object, the
  options-immutable mark, the deadline, the value \<^verbatim>\<open>ctx.Err()\<close> has when
  \<^verbatim>\<open>selectNode\<close> reads it), the clock that \<^verbatim>\<open>time.Now\<close> reads, the response body
  object and the trace.
\<close>

record call_state =
  msg :: Msg
  opts :: Options
  optionsImmutable :: bool
  deadline :: "int option"
  ctxErr :: "ctx_error option"
  now :: int
  rspBody :: body
  trace :: "event list"

text \<open>\<^verbatim>\<open>filter.ClientHandleFunc\<close>, with context and bodies in the state.\<close>

type_synonym handler = "call_state \<Rightarrow> call_state \<times> error option"

text \<open>
  What \<^verbatim>\<open>client.go\<close> calls and the sources at hand do not define: constants and
  registries of package codec, Go's package net and fmt, the option store, and the
  user's interceptors. They are parameters of the model.
\<close>

record externals =
  SerializationTypePB :: int
  CompressTypeNoop :: int
  IsValidCompressType :: "int \<Rightarrow> bool"
  Marshal :: "int \<Rightarrow> body \<Rightarrow> bytes \<times> error option"
  Unmarshal :: "int \<Rightarrow> bytes \<Rightarrow> body \<Rightarrow> body \<times> error option"
  Compress :: "int \<Rightarrow> bytes \<Rightarrow> bytes \<times> error option"
  Decompress :: "int \<Rightarrow> bytes \<Rightarrow> bytes \<times> error option"
  Error_text :: "error \<Rightarrow> string"
  Duration_String :: "int \<Rightarrow> string"
  Node_Sprintf :: "Node \<Rightarrow> string"
  SplitHostPort :: "string \<Rightarrow> (string \<times> string) option"
  ParseIP :: "string \<Rightarrow> bytes option"
  ResolveTCPAddr :: "string \<Rightarrow> string \<Rightarrow> string option"
  ResolveUDPAddr :: "string \<Rightarrow> string \<Rightarrow> string option"
  ResolveUnixAddr :: "string \<Rightarrow> string \<Rightarrow> string option"
  getOptionsByCalleeAndUserOptions :: "string \<Rightarrow> (Options \<Rightarrow> Options) list \<Rightarrow> Options"
  parseTarget :: "Options \<Rightarrow> error + Options"
  LoadNodeConfig :: "Options \<Rightarrow> Node \<Rightarrow> Options"
  findFirstNonEmpty :: "string \<Rightarrow> string \<Rightarrow> string"
  DefaultSelectorFilterName :: string
  userFilters :: "nat \<Rightarrow> handler \<Rightarrow> handler"

definition emit :: "event \<Rightarrow> call_state \<Rightarrow> call_state" where
  "emit e st = st\<lparr>trace := trace st @ [e]\<rparr>"

subsection \<open>Type codes (internal/codec)\<close>

text \<open>\<^verbatim>\<open>IsValidSerializationType\<close>: \<^verbatim>\<open>t >= minValidSerializationType\<close> with the
  floor \<^verbatim>\<open>codec.SerializationTypePB\<close>.\<close>

definition IsValidSerializationType :: "externals \<Rightarrow> int \<Rightarrow> bool" where
  "IsValidSerializationType env t = (t \<ge> SerializationTypePB env)"

subsection \<open>Request path: \<^verbatim>\<open>serializeAndCompress\<close> and \<^verbatim>\<open>prepareRequestBuf\<close>\<close>

text \<open>
  \<^verbatim>\<open>serializeAndCompress\<close> has two stages, each leaving Go's pair
  \<^verbatim>\<open>(reqBodyBuf, err)\<close>. \<open>marshalStage\<close> is the code under the span
  \<^verbatim>\<open>Marshal\<close>: the variables start as \<^verbatim>\<open>nil\<close>, and \<^verbatim>\<open>codec.Marshal\<close>
  runs only for a valid type. A nil and an empty slice are both \<open>[]\<close>; the code tells
  them apart nowhere.
\<close>

definition marshalStage :: "externals \<Rightarrow> body \<Rightarrow> call_state \<Rightarrow> call_state \<times> bytes \<times> error option" where
  "marshalStage env reqBody st =
     (let t0 = serializationType (msg st);
          t = (if IsValidSerializationType env (CurrentSerializationType (opts st))
               then CurrentSerializationType (opts st) else t0)
      in if IsValidSerializationType env t
         then (case Marshal env t reqBody of
                 (reqBodyBuf, err) \<Rightarrow> (emit (EvMarshal t reqBody) st, reqBodyBuf, err))
         else (st, [], None))"

text \<open>\<open>compressStage\<close> is the code under the span \<^verbatim>\<open>Compress\<close>.\<close>

definition compressStage :: "externals \<Rightarrow> bytes \<Rightarrow> call_state \<Rightarrow> call_state \<times> bytes \<times> error option" where
  "compressStage env reqBodyBuf st =
     (let c0 = compressType (msg st);
          c = (if IsValidCompressType env (CurrentCompressType (opts st))
               then CurrentCompressType (opts st) else c0)
      in if IsValidCompressType env c \<and> c \<noteq> CompressTypeNoop env
         then (case Compress env c reqBodyBuf of
                 (buf, err) \<Rightarrow> (emit (EvCompress c reqBodyBuf) st, buf, err))
         else (st, reqBodyBuf, None))"

definition serializeAndCompress :: "externals \<Rightarrow> body \<Rightarrow> call_state \<Rightarrow> call_state \<times> (error + bytes)" where
  "serializeAndCompress env reqBody st =
     (case marshalStage env reqBody st of
        (st1, reqBodyBuf, Some err) \<Rightarrow>
          (st1, Inl (NewFrameError RetClientEncodeFail (''client codec Marshal: '' @ Error_text env err)))
      | (st1, reqBodyBuf, None) \<Rightarrow>
          (case compressStage env reqBodyBuf st1 of
             (st2, buf, Some err) \<Rightarrow>
               (st2, Inl (NewFrameError RetClientEncodeFail (''client codec Compress: '' @ Error_text env err)))
           | (st2, buf, None) \<Rightarrow> (st2, Inr buf)))"

text \<open>\<^verbatim>\<open>prepareRequestBuf\<close>; the codec is the non-nil \<^verbatim>\<open>opts.Codec\<close> that
  \<^verbatim>\<open>callFunc\<close> has checked.\<close>

definition prepareRequestBuf :: "externals \<Rightarrow> Codec \<Rightarrow> body \<Rightarrow> call_state \<Rightarrow> call_state \<times> (error + bytes)" where
  "prepareRequestBuf env cdc reqBody st =
     (case serializeAndCompress env reqBody st of
        (st1, Inl err) \<Rightarrow> (st1, Inl err)
      | (st1, Inr reqBodyBuf) \<Rightarrow>
          (case Encode cdc (msg st1) reqBodyBuf of
             (m, reqBuf, err) \<Rightarrow>
               (let st2 = (emit (EvEncode reqBodyBuf) st1)\<lparr>msg := m\<rparr>
                in case err of
                     Some e \<Rightarrow> (st2, Inl (NewFrameError RetClientEncodeFail
                                            (''client codec Encode: '' @ Error_text env e)))
                   | None \<Rightarrow> (st2, Inr reqBuf))))"

subsection \<open>Response path: \<^verbatim>\<open>processResponseBuf\<close>\<close>

definition decompressStage :: "externals \<Rightarrow> bytes \<Rightarrow> call_state \<Rightarrow> call_state \<times> bytes \<times> error option" where
  "decompressStage env rspBodyBuf st =
     (let c0 = compressType (msg st);
          c = (if IsValidCompressType env (CurrentCompressType (opts st))
               then CurrentCompressType (opts st) else c0)
      in if IsValidCompressType env c \<and> c \<noteq> CompressTypeNoop env
         then (case Decompress env c rspBodyBuf of
                 (buf, err) \<Rightarrow> (emit (EvDecompress c rspBodyBuf) st, buf, err))
         else (st, rspBodyBuf, None))"

definition unmarshalStage :: "externals \<Rightarrow> bytes \<Rightarrow> call_state \<Rightarrow> call_state \<times> error option" where
  "unmarshalStage env rspBodyBuf st =
     (let t0 = serializationType (msg st);
          t = (if IsValidSerializationType env (CurrentSerializationType (opts st))
               then CurrentSerializationType (opts st) else t0)
      in if IsValidSerializationType env t
         then (case Unmarshal env t rspBodyBuf (rspBody st) of
                 (b, err) \<Rightarrow> ((emit (EvUnmarshal t rspBodyBuf) st)\<lparr>rspBody := b\<rparr>, err))
         else (st, None))"

definition processResponseBuf :: "externals \<Rightarrow> bytes \<Rightarrow> call_state \<Rightarrow> call_state \<times> error option" where
  "processResponseBuf env rspBodyBuf st =
     (if clientRspErr (msg st) \<noteq> None then (st, clientRspErr (msg st))
      else if length rspBodyBuf = 0 then (st, None)
      else (case decompressStage env rspBodyBuf st of
              (st1, buf, Some err) \<Rightarrow>
                (st1, Some (NewFrameError RetClientDecodeFail
                              (''client codec Decompress: '' @ Error_text env err)))
            | (st1, buf, None) \<Rightarrow>
                (case unmarshalStage env buf st1 of
                   (st2, Some err) \<Rightarrow>
                     (st2, Some (NewFrameError RetClientDecodeFail
                                   (''client codec Unmarshal: '' @ Error_text env err)))
                 | (st2, None) \<Rightarrow> (st2, None))))"

subsection \<open>\<^verbatim>\<open>callFunc\<close>\<close>

text \<open>\<open>callFunc_body\<close> is the body of \<^verbatim>\<open>callFunc\<close> up to each \<^verbatim>\<open>return\<close>;
  \<open>callFunc\<close> adds the deferred \<^verbatim>\<open>err = opts.fixTimeout(err)\<close>, which runs on every
  return.\<close>

definition callFunc_body :: "externals \<Rightarrow> body \<Rightarrow> handler" where
  "callFunc_body env reqBody st =
     (case Codec (opts st) of
        None \<Rightarrow> (emit (EvIncr ''ClientCodecEmpty'') st,
                 Some (NewFrameError RetClientEncodeFail ''client: codec empty''))
      | Some cdc \<Rightarrow>
          (case prepareRequestBuf env cdc reqBody st of
             (st1, Inl err) \<Rightarrow> (st1, Some err)
           | (st1, Inr reqBuf) \<Rightarrow>
               (let st2 = (if EnableMultiplexed (opts st1)
                           then st1\<lparr>opts := (opts st1)\<lparr>CallOptions :=
                                  CallOptions (opts st1) @ [WithMsg, WithMultiplexed True]\<rparr>\<rparr>
                           else st1)
                in case RoundTrip (Transport (opts st2)) (msg st2) reqBuf (CallOptions (opts st2)) of
                     (m, rspBuf, err) \<Rightarrow>
                       (let st3 = (emit (EvRoundTrip reqBuf (CallOptions (opts st2))) st2)\<lparr>msg := m\<rparr>
                        in case err of
                             Some e \<Rightarrow> (if e = ErrClientNoResponse then (st3, None) else (st3, Some e))
                           | None \<Rightarrow>
                               (case Decode cdc (msg st3) rspBuf of
                                  (m', rspBodyBuf, derr) \<Rightarrow>
                                    (let st4 = (emit (EvDecode rspBuf) st3)\<lparr>msg := m'\<rparr>
                                     in case derr of
                                          Some e \<Rightarrow>
                                            (st4, Some (NewFrameError RetClientDecodeFail
                                                          (''client codec Decode: '' @ Error_text env e)))
                                        | None \<Rightarrow> processResponseBuf env rspBodyBuf st4))))))"

definition callFunc :: "externals \<Rightarrow> body \<Rightarrow> handler" where
  "callFunc env reqBody st =
     (case callFunc_body env reqBody st of
        (st', err) \<Rightarrow>
          (emit (EvFixTimeout err (fixTimeout (opts st') err)) st', fixTimeout (opts st') err))"

subsection \<open>The selector filter\<close>

definition getNode :: "externals \<Rightarrow> call_state \<Rightarrow> call_state \<times> (error + Node)" where
  "getNode env st =
     (let st1 = emit (EvSelect (endpoint (opts st)) (SelectOptions (opts st))) st
      in case Select (Selector (opts st)) (endpoint (opts st)) (SelectOptions (opts st)) of
           Inl err \<Rightarrow>
             (st1, Inl (NewFrameError RetClientRouteErr (''client Select: '' @ Error_text env err)))
         | Inr node \<Rightarrow>
             (if Address node = ''''
              then (st1, Inl (NewFrameError RetClientRouteErr
                                (''client Select: node address empty:'' @ Node_Sprintf env node)))
              else (st1, Inr node)))"

definition selectNode :: "externals \<Rightarrow> call_state \<Rightarrow> call_state \<times> (error + Node)" where
  "selectNode env st =
     (let st0 = st\<lparr>opts := (opts st)\<lparr>SelectOptions := SelectOptions (opts st) @ [WithContext]\<rparr>\<rparr>
      in case getNode env st0 of
           (st1, Inl err) \<Rightarrow> (emit (EvIncr ''SelectNodeFail'') st1, Inl err)
         | (st1, Inr node) \<Rightarrow>
             (let os = LoadNodeConfig env (opts st1) node;
                  m1 = (msg st1)\<lparr>calleeContainerName := ContainerName node,
                                 calleeSetName := SetName node\<rparr>;
                  m2 = (if envTransfer m1 = '''' then m1\<lparr>envTransfer := EnvKey node\<rparr> else m1);
                  m3 = (if DisableServiceRouter os then m2\<lparr>envTransfer := ''''\<rparr> else m2);
                  st2 = st1\<lparr>opts := os, msg := m3\<rparr>
              in if ctxErr st2 = Some Canceled
                 then (st2, Inl (NewFrameError RetClientCanceled
                                   (''selector canceled after Select: '' @ ctx_error_Error Canceled)))
                 else if ctxErr st2 = Some DeadlineExceeded
                 then (st2, Inl (NewFrameError RetClientTimeout
                                   (''selector timeout after Select: '' @ ctx_error_Error DeadlineExceeded)))
                 else (st2, Inr node)))"

text \<open>
  \<^verbatim>\<open>ensureMsgRemoteAddr\<close>. \<open>SplitHostPort\<close> yields \<open>None\<close> for Go's non-nil error,
  \<open>ParseIP\<close> yields \<open>None\<close> for a nil \<^verbatim>\<open>net.IP\<close>, and a resolver yields \<open>None\<close>
  for the nil pointer it returns beside an error. The resolver's error is dropped
  (\<^verbatim>\<open>addr, _ = ...\<close>) and the pointer, nil or not, is stored in the \<^verbatim>\<open>net.Addr\<close>
  variable that \<^verbatim>\<open>WithRemoteAddr\<close> receives. The two lists are the case lists of
  the second \<^verbatim>\<open>switch\<close>; the first \<^verbatim>\<open>switch\<close> has both.
\<close>

definition tcpNetworks :: "string list" where
  "tcpNetworks = [''tcp'', ''tcp4'', ''tcp6'']"

definition udpNetworks :: "string list" where
  "udpNetworks = [''udp'', ''udp4'', ''udp6'']"

definition ensureMsgRemoteAddr :: "externals \<Rightarrow> Msg \<Rightarrow> string \<Rightarrow> string \<Rightarrow> Msg" where
  "ensureMsgRemoteAddr env m network address =
     (if remoteAddr m \<noteq> None then m
      else if network \<in> set (tcpNetworks @ udpNetworks) \<and>
              (case SplitHostPort env address of
                 None \<Rightarrow> True
               | Some (host, port) \<Rightarrow> ParseIP env host = None)
      then m
      else (let addr =
                 (if network \<in> set tcpNetworks
                  then TCPAddr (ResolveTCPAddr env network address)
                  else if network \<in> set udpNetworks
                  then UDPAddr (ResolveUDPAddr env network address)
                  else if network = ''unix''
                  then UnixAddr (ResolveUnixAddr env network address)
                  else TCPAddr (ResolveTCPAddr env ''tcp4'' address))
            in m\<lparr>remoteAddr := Some addr\<rparr>))"

text \<open>The condition of the first reporting branch of \<^verbatim>\<open>selectorFilter\<close>: the error
  is a \<^verbatim>\<open>*errs.Error\<close> of type framework with one of the three codes. The result is
  the asserted \<^verbatim>\<open>e\<close>.\<close>

definition frameworkNetError :: "error option \<Rightarrow> errs_Error option" where
  "frameworkNetError err =
     (case err of
        Some (ErrsError e) \<Rightarrow>
          if Type e = ErrorTypeFramework \<and>
             (Code e = RetClientConnectFail \<or> Code e = RetClientTimeout \<or> Code e = RetClientNetErr)
          then Some e else None
      | _ \<Rightarrow> None)"

text \<open>
  The part of \<^verbatim>\<open>selectorFilter\<close> after a node has been selected: it sets the remote
  address, runs \<^verbatim>\<open>next\<close> between two readings of the clock, reports to the selector
  and publishes the node. \<^verbatim>\<open>e.Msg = ...\<close> writes through the pointer, so the error
  returned is the one with the cost appended.
\<close>

definition callNextAndReport :: "externals \<Rightarrow> Node \<Rightarrow> handler \<Rightarrow> handler" where
  "callNextAndReport env node next st =
     (let st1 = st\<lparr>msg := ensureMsgRemoteAddr env (msg st)
                            (findFirstNonEmpty env (Network node) (Network_opt (opts st)))
                            (Address node)\<rparr>;
          begin = now st1
      in case next st1 of
           (st2, err) \<Rightarrow>
             (let cost = now st2 - begin;
                  (st3, err') =
                    (case frameworkNetError err of
                       Some e \<Rightarrow>
                         (let err1 = Some (ErrsError (e\<lparr>Msg := Msg e @ '', cost:'' @ Duration_String env cost\<rparr>))
                          in (emit (EvReport node cost err1) st2, err1))
                     | None \<Rightarrow>
                         (if shouldErrReportToSelector (opts st2) err
                          then (emit (EvReport node cost err) st2, err)
                          else (emit (EvReport node cost None) st2, err)));
                  st4 = (case remoteAddr (msg st3) of
                           Some addr \<Rightarrow> emit (EvNodeSet node (net_Addr_String addr) cost) st3
                         | None \<Rightarrow> emit (EvNodeSet node (Address node) cost) st3)
              in (st4, err')))"

text \<open>
  \<^verbatim>\<open>selectorFilter\<close>. Under the immutable mark the filter works on a clone of the
  options installed on a context of its own; a clone of a value is the value, and on
  return the caller's context still carries its own options object, which the filter
  has not touched.
\<close>

definition selectorFilter :: "externals \<Rightarrow> handler \<Rightarrow> handler" where
  "selectorFilter env next st =
     (let r = (case selectNode env st of
                 (st1, Inl err) \<Rightarrow>
                   (emit (EvFixTimeout (Some err) (fixTimeout (opts st1) (Some err))) st1,
                    fixTimeout (opts st1) (Some err))
               | (st1, Inr node) \<Rightarrow> callNextAndReport env node next st1)
      in if optionsImmutable st then ((fst r)\<lparr>opts := opts st\<rparr>, snd r) else r)"

subsection \<open>The filter chain\<close>

fun applyFilter :: "externals \<Rightarrow> filter \<Rightarrow> handler \<Rightarrow> handler" where
  "applyFilter env SelectorFilter next = selectorFilter env next"
| "applyFilter env (UserFilter i) next = userFilters env i next"

text \<open>Modelled from the spec: \<^verbatim>\<open>filter.ClientChain.Filter\<close> is not in the sources; the
  spec has the engine execute the interceptors in order, each receiving a \<^verbatim>\<open>next\<close>
  continuation that executes the remaining suffix, with the terminal function after the
  last one.\<close>

fun ClientChain_Filter :: "externals \<Rightarrow> filter list \<Rightarrow> handler \<Rightarrow> handler" where
  "ClientChain_Filter env [] next = next"
| "ClientChain_Filter env (f # fs) next = applyFilter env f (ClientChain_Filter env fs next)"

definition fixFilters :: "externals \<Rightarrow> Options \<Rightarrow> filter list \<times> Options" where
  "fixFilters env os =
     (if DisableFilter os \<or> length (Filters os) = 0
      then ([SelectorFilter], os\<lparr>FilterNames := FilterNames os @ [DefaultSelectorFilterName env]\<rparr>)
      else if \<not> selectorFilterPosFixed os
      then (let os1 = os\<lparr>Filters := Filters os @ [SelectorFilter],
                        FilterNames := FilterNames os @ [DefaultSelectorFilterName env]\<rparr>
            in (Filters os1, os1))
      else (Filters os, os))"

subsection \<open>\<^verbatim>\<open>Invoke\<close>\<close>

definition getServiceInfoOptions :: "Msg \<Rightarrow> select_option list" where
  "getServiceInfoOptions m =
     (if namespace m \<noteq> ''''
      then [WithSourceNamespace (namespace m),
            WithSourceServiceName (callerServiceName m),
            WithSourceEnvName (envName m),
            WithEnvTransfer (envTransfer m),
            WithSourceSetName (setName m)]
      else [])"

text \<open>\<^verbatim>\<open>getOptions\<close>; an \<^verbatim>\<open>Option\<close> is a function that updates the options.\<close>

definition getOptions :: "externals \<Rightarrow> Msg \<Rightarrow> (Options \<Rightarrow> Options) list \<Rightarrow> error + Options" where
  "getOptions env m opt =
     (let os0 = getOptionsByCalleeAndUserOptions env (calleeServiceName m) opt;
          os1 = os0\<lparr>SelectOptions := SelectOptions os0 @ getServiceInfoOptions m\<rparr>;
          os2 = fold (\<lambda>f os. f os) opt os1
      in case parseTarget env os2 of
           Inl err \<Rightarrow> Inl (NewFrameError RetClientRouteErr (Error_text env err))
         | Inr os3 \<Rightarrow> Inr os3)"

definition getMetaData :: "Msg \<Rightarrow> Options \<Rightarrow> (string \<rightharpoonup> bytes)" where
  "getMetaData m os =
     (let md = (case clientMetaData m of None \<Rightarrow> Map.empty | Some md \<Rightarrow> md)
      in fold (\<lambda>(k, v) md. md(k \<mapsto> v)) (MetaData os) md)"

definition setAttachment :: "Msg \<Rightarrow> string \<Rightarrow> Msg" where
  "setAttachment m attm =
     (let cm = (case commonMeta m of None \<Rightarrow> Map.empty | Some cm \<Rightarrow> cm)
      in m\<lparr>commonMeta := Some (cm(''ClientAttachmentKey'' \<mapsto> attm))\<rparr>)"

definition updateMsg :: "externals \<Rightarrow> Msg \<Rightarrow> Options \<Rightarrow> Msg \<times> Options" where
  "updateMsg env m os =
     (let m1 = (if ServiceName_opt os \<noteq> '''' then m\<lparr>calleeServiceName := ServiceName_opt os\<rparr> else m);
          os1 = (if endpoint os = '''' then os\<lparr>endpoint := calleeServiceName m1\<rparr> else os);
          m2 = (if CalleeMethod os1 \<noteq> '''' then m1\<lparr>calleeMethod := CalleeMethod os1\<rparr> else m1);
          m3 = (if length (MetaData os1) > 0 then m2\<lparr>clientMetaData := Some (getMetaData m2 os1)\<rparr> else m2);
          m4 = (if CallerServiceName os1 \<noteq> '''' then m3\<lparr>callerServiceName := CallerServiceName os1\<rparr> else m3);
          m5 = (if IsValidSerializationType env (SerializationType os1)
                then m4\<lparr>serializationType := SerializationType os1\<rparr> else m4);
          m6 = (if IsValidCompressType env (CompressType os1) \<and> CompressType os1 \<noteq> CompressTypeNoop env
                then m5\<lparr>compressType := CompressType os1\<rparr> else m5);
          m7 = (if ReqHead os1 \<noteq> None then m6\<lparr>clientReqHead := ReqHead os1\<rparr> else m6);
          m8 = (if RspHead os1 \<noteq> None then m7\<lparr>clientRspHead := RspHead os1\<rparr> else m7);
          m9 = m8\<lparr>callType := CallType os1\<rparr>;
          m10 = (case attachment os1 of Some attm \<Rightarrow> setAttachment m9 attm | None \<Rightarrow> m9)
      in (m10, os1))"

text \<open>\<^verbatim>\<open>context.WithTimeout\<close> keeps an earlier deadline of the parent.\<close>

definition WithTimeout :: "int option \<Rightarrow> int \<Rightarrow> int \<Rightarrow> int option" where
  "WithTimeout parent t timeout =
     (case parent of
        Some d \<Rightarrow> if d < t + timeout then Some d else Some (t + timeout)
      | None \<Rightarrow> Some (t + timeout))"

text \<open>
  \<open>Invoke_setup\<close> is \<^verbatim>\<open>Invoke\<close> up to the start of the chain: it builds the options,
  updates the message, composes the timeouts and resolves the filters, and yields the
  chain and the state of the context handed to it, or the error of \<^verbatim>\<open>getOptions\<close>.
  The readings of \<^verbatim>\<open>time.Now\<close> in this stretch are one instant, \<open>now st\<close>. Go's
  saturating \<^verbatim>\<open>Time.Sub\<close> agrees with the subtraction on \<open>int\<close> in every comparison
  with a 64-bit timeout.
\<close>

definition Invoke_setup :: "externals \<Rightarrow> (Options \<Rightarrow> Options) list \<Rightarrow> call_state \<Rightarrow> error + (filter list \<times> call_state)" where
  "Invoke_setup env opt st =
     (case getOptions env (msg st) opt of
        Inl err \<Rightarrow> Inl err
      | Inr os0 \<Rightarrow>
          (case updateMsg env (msg st) os0 of
             (m1, os1) \<Rightarrow>
               (let fullLinkDeadline = deadline st;
                    dl = (if Timeout os1 > 0 then WithTimeout (deadline st) (now st) (Timeout os1)
                          else deadline st);
                    m2 = (case dl of Some d \<Rightarrow> m1\<lparr>requestTimeout := d - now st\<rparr> | None \<Rightarrow> m1);
                    os2 = (case fullLinkDeadline of
                            Some d \<Rightarrow>
                              if Timeout os1 \<le> 0 \<or> d - now st < Timeout os1
                              then os1\<lparr>fixTimeout := mayConvert2FullLinkTimeout\<rparr> else os1
                          | None \<Rightarrow> os1)
                in case fixFilters env os2 of
                     (filters, os3) \<Rightarrow> Inr (filters, st\<lparr>msg := m2, opts := os3, deadline := dl\<rparr>))))"

definition Invoke :: "externals \<Rightarrow> (Options \<Rightarrow> Options) list \<Rightarrow> body \<Rightarrow> handler" where
  "Invoke env opt reqBody st =
     (case Invoke_setup env opt st of
        Inl err \<Rightarrow> (st, Some err)
      | Inr (filters, st1) \<Rightarrow> ClientChain_Filter env filters (callFunc env reqBody) st1)"

subsection \<open>Observations on the trace\<close>

fun isMarshal :: "event \<Rightarrow> bool" where
  "isMarshal (EvMarshal t b) = True"
| "isMarshal e = False"

fun isCompress :: "event \<Rightarrow> bool" where
  "isCompress (EvCompress t b) = True"
| "isCompress e = False"

fun isRoundTrip :: "event \<Rightarrow> bool" where
  "isRoundTrip (EvRoundTrip b cs) = True"
| "isRoundTrip e = False"

text \<open>The events of the response path: decoding, decompressing, unmarshalling.\<close>

fun isResponseEvent :: "event \<Rightarrow> bool" where
  "isResponseEvent (EvDecode b) = True"
| "isResponseEvent (EvDecompress t b) = True"
| "isResponseEvent (EvUnmarshal t b) = True"
| "isResponseEvent e = False"

fun isBodyEvent :: "event \<Rightarrow> bool" where
  "isBodyEvent (EvDecompress t b) = True"
| "isBodyEvent (EvUnmarshal t b) = True"
| "isBodyEvent e = False"

fun isReport :: "event \<Rightarrow> bool" where
  "isReport (EvReport n c e) = True"
| "isReport e = False"

fun isFixTimeout :: "event \<Rightarrow> bool" where
  "isFixTimeout (EvFixTimeout a b) = True"
| "isFixTimeout e = False"

text \<open>The two adapters that the package installs as \<^verbatim>\<open>Options.fixTimeout\<close>: the
  identity, which is the default, and \<^verbatim>\<open>mayConvert2FullLinkTimeout\<close>.\<close>

definition isFixTimeoutAdapter :: "(error option \<Rightarrow> error option) \<Rightarrow> bool" where
  "isFixTimeoutAdapter f = (f = (\<lambda>err. err) \<or> f = mayConvert2FullLinkTimeout)"

subsection \<open>A concrete configuration\<close>

text \<open>
  An identity codec, an echoing transport, a selector that returns one fixed answer, and
  registries that accept every type code from 0 on, with 0 the no-op compressor. The
  concrete inputs of the closed theorems below are variations of this configuration.
\<close>

definition echoCodec :: Codec where
  "echoCodec = \<lparr>Encode = (\<lambda>m b. (m, b, None)), Decode = (\<lambda>m b. (m, b, None))\<rparr>"

definition echoTransport :: Transport where
  "echoTransport = \<lparr>RoundTrip = (\<lambda>m b cs. (m, b, None))\<rparr>"

definition node1 :: Node where
  "node1 = \<lparr>ServiceName = ''svcA'', ContainerName = '''', Address = ''10.0.0.1:8000'',
            Network = ''tcp'', Protocol = ''trpc'', SetName = '''', Weight = 1, CostTime = 0,
            EnvKey = '''', Metadata = []\<rparr>"

definition fixedSelector :: "error + Node \<Rightarrow> Selector" where
  "fixedSelector r = \<lparr>Select = (\<lambda>ep so. r)\<rparr>"

definition baseOptions :: Options where
  "baseOptions =
     \<lparr>ServiceName_opt = '''', CallerServiceName = '''', CalleeMethod = '''', endpoint = ''svcA'',
      Network_opt = '''', MetaData = [], SerializationType = 2, CompressType = 0,
      CurrentSerializationType = -1, CurrentCompressType = -1, ReqHead = None, RspHead = None,
      CallType = 0, attachment = None, Timeout = 0, DisableFilter = False, Filters = [],
      FilterNames = [], selectorFilterPosFixed = False, fixTimeout = (\<lambda>err. err),
      Codec = Some echoCodec, Transport = echoTransport, Selector = fixedSelector (Inr node1),
      EnableMultiplexed = False, CallOptions = [], SelectOptions = [],
      DisableServiceRouter = False, shouldErrReportToSelector = (\<lambda>err. False)\<rparr>"

definition freshMsg :: Msg where
  "freshMsg =
     \<lparr>callerServiceName = '''', calleeServiceName = ''svcA'', calleeMethod = ''/svcA/Call'',
      calleeContainerName = '''', calleeSetName = '''', namespace = '''', envName = '''',
      envTransfer = '''', setName = '''', serializationType = 2, compressType = 0,
      requestTimeout = 0, remoteAddr = None, clientReqHead = None, clientRspHead = None,
      commonMeta = None, clientMetaData = None, callType = 0, clientRspErr = None\<rparr>"

definition initState :: call_state where
  "initState =
     \<lparr>msg = freshMsg, opts = baseOptions, optionsImmutable = False, deadline = None,
      ctxErr = None, now = 1000, rspBody = '''', trace = []\<rparr>"

definition stdEnv :: externals where
  "stdEnv =
     \<lparr>SerializationTypePB = 0, CompressTypeNoop = 0, IsValidCompressType = (\<lambda>t. t \<ge> 0),
      Marshal = (\<lambda>t b. ([1, 2, 3], None)),
      Unmarshal = (\<lambda>t buf b. (''decoded'', None)),
      Compress = (\<lambda>t buf. (0 # buf, None)),
      Decompress = (\<lambda>t buf. (tl buf, None)),
      Error_text = (\<lambda>e. case e of GoError s \<Rightarrow> s | ErrsError e \<Rightarrow> Msg e
                          | ErrClientNoResponse \<Rightarrow> ''client no response''),
      Duration_String = (\<lambda>d. if d = 0 then ''0s'' else ''50ms''),
      Node_Sprintf = (\<lambda>n. Address n),
      SplitHostPort = (\<lambda>a. if a = ''10.0.0.1:8000'' then Some (''10.0.0.1'', ''8000'')
                            else if a = ''10.0.0.1:99999'' then Some (''10.0.0.1'', ''99999'')
                            else if a = ''example.com:80'' then Some (''example.com'', ''80'')
                            else None),
      ParseIP = (\<lambda>h. if h = ''10.0.0.1'' then Some [10, 0, 0, 1] else None),
      ResolveTCPAddr = (\<lambda>n a. if a = ''10.0.0.1:8000'' then Some a else None),
      ResolveUDPAddr = (\<lambda>n a. if a = ''10.0.0.1:8000'' then Some a else None),
      ResolveUnixAddr = (\<lambda>n a. Some a),
      getOptionsByCalleeAndUserOptions = (\<lambda>callee opt. baseOptions),
      parseTarget = (\<lambda>os. Inr os),
      LoadNodeConfig = (\<lambda>os n. os),
      findFirstNonEmpty = (\<lambda>a b. if a \<noteq> '''' then a else b),
      DefaultSelectorFilterName = ''selector'',
      userFilters = (\<lambda>i next. next)\<rparr>"

text \<open>A transport that declares the call send-only.\<close>

definition sendOnlyTransport :: Transport where
  "sendOnlyTransport = \<lparr>RoundTrip = (\<lambda>m b cs. (m, [], Some ErrClientNoResponse))\<rparr>"

definition sendOnlyState :: call_state where
  "sendOnlyState = initState\<lparr>opts := baseOptions\<lparr>Transport := sendOnlyTransport\<rparr>\<rparr>"

text \<open>A message whose serialization type is below the floor and whose compress type is a
  real compressor.\<close>

definition noTypeState :: call_state where
  "noTypeState = initState\<lparr>msg := freshMsg\<lparr>serializationType := -1, compressType := 1\<rparr>\<rparr>"

text \<open>A serializer that fails, and a message that asks for a real compressor.\<close>

definition failingMarshalEnv :: externals where
  "failingMarshalEnv = stdEnv\<lparr>Marshal := (\<lambda>t b. ([], Some (GoError ''marshal failed'')))\<rparr>"

definition gzipState :: call_state where
  "gzipState = initState\<lparr>msg := freshMsg\<lparr>compressType := 1\<rparr>\<rparr>"

text \<open>A business error carried in the response, a codec whose \<^verbatim>\<open>Decode\<close> extracts it
  into the message, and one that also fails.\<close>

definition bizErr :: error where
  "bizErr = ErrsError \<lparr>Type = ErrorTypeOther 2, Code = RetOther 10001, Msg = ''business error''\<rparr>"

definition rspErrCodec :: Codec where
  "rspErrCodec = \<lparr>Encode = (\<lambda>m b. (m, b, None)),
                   Decode = (\<lambda>m b. (m\<lparr>clientRspErr := Some bizErr\<rparr>, b, None))\<rparr>"

definition brokenCodec :: Codec where
  "brokenCodec = \<lparr>Encode = (\<lambda>m b. (m, b, None)),
                   Decode = (\<lambda>m b. (m\<lparr>clientRspErr := Some bizErr\<rparr>, b, Some (GoError ''bad frame'')))\<rparr>"

definition rspErrState :: call_state where
  "rspErrState = initState\<lparr>opts := baseOptions\<lparr>Codec := Some rspErrCodec\<rparr>\<rparr>"

definition brokenCodecState :: call_state where
  "brokenCodecState = initState\<lparr>opts := baseOptions\<lparr>Codec := Some brokenCodec\<rparr>\<rparr>"

text \<open>Filter lists of the user: two interceptors, and three entries with the selector
  filter pinned in the middle.\<close>

definition twoFilters :: Options where
  "twoFilters = baseOptions\<lparr>Filters := [UserFilter 0, UserFilter 1]\<rparr>"

definition pinnedFilters :: Options where
  "pinnedFilters = baseOptions\<lparr>Filters := [UserFilter 0, SelectorFilter, UserFilter 1],
                                selectorFilterPosFixed := True\<rparr>"

text \<open>Selectors that return a node without an address, and a node whose literal-IP
  address has a port that does not resolve.\<close>

definition emptyAddrState :: call_state where
  "emptyAddrState = initState\<lparr>opts := baseOptions\<lparr>Selector := fixedSelector (Inr (node1\<lparr>Address := ''''\<rparr>))\<rparr>\<rparr>"

definition badPortNode :: Node where
  "badPortNode = node1\<lparr>Address := ''10.0.0.1:99999''\<rparr>"

definition badPortState :: call_state where
  "badPortState = initState\<lparr>opts := baseOptions\<lparr>Selector := fixedSelector (Inr badPortNode)\<rparr>\<rparr>"

text \<open>A timeout of the framework, a downstream handler that returns it after 50
  nanoseconds, one that succeeds at once, and a user predicate that reports everything.\<close>

definition timeoutErr :: errs_Error where
  "timeoutErr = \<lparr>Type = ErrorTypeFramework, Code = RetClientTimeout, Msg = ''read frame timeout''\<rparr>"

definition okNext :: handler where
  "okNext = (\<lambda>s. (s, None))"

definition slowNext :: handler where
  "slowNext = (\<lambda>s. (s\<lparr>now := now s + 50\<rparr>, Some (ErrsError timeoutErr)))"

definition alwaysReportState :: call_state where
  "alwaysReportState = initState\<lparr>opts := baseOptions\<lparr>shouldErrReportToSelector := (\<lambda>err. True)\<rparr>\<rparr>"

text \<open>Options with a timeout of one second over a transport that times out; a context
  that carries a deadline 20 microseconds ahead; an interceptor that returns a timeout
  without calling \<^verbatim>\<open>next\<close>; a target that does not parse.\<close>

definition timeoutTransport :: Transport where
  "timeoutTransport = \<lparr>RoundTrip = (\<lambda>m b cs. (m, [], Some (ErrsError timeoutErr)))\<rparr>"

definition timeoutEnv :: externals where
  "timeoutEnv = stdEnv\<lparr>getOptionsByCalleeAndUserOptions :=
                   (\<lambda>callee opt. baseOptions\<lparr>Timeout := 1000000000, Transport := timeoutTransport\<rparr>)\<rparr>"

definition deadlineState :: call_state where
  "deadlineState = initState\<lparr>deadline := Some 21000\<rparr>"

definition shortCircuitEnv :: externals where
  "shortCircuitEnv = stdEnv\<lparr>getOptionsByCalleeAndUserOptions :=
                              (\<lambda>callee opt. baseOptions\<lparr>Filters := [UserFilter 0]\<rparr>),
                            userFilters := (\<lambda>i nxt s. (s, Some (ErrsError timeoutErr)))\<rparr>"

definition badTargetEnv :: externals where
  "badTargetEnv = stdEnv\<lparr>parseTarget := (\<lambda>os. Inl (GoError ''invalid target''))\<rparr>"

text \<open>A selector that fails, and a transport that times out under the default
  options.\<close>

definition selectErrState :: call_state where
  "selectErrState = initState\<lparr>opts := baseOptions\<lparr>Selector := fixedSelector (Inl (GoError ''no instance''))\<rparr>\<rparr>"

definition timeoutState :: call_state where
  "timeoutState = initState\<lparr>opts := baseOptions\<lparr>Transport := timeoutTransport\<rparr>\<rparr>"

text \<open>A context that is cancelled when \<^verbatim>\<open>selectNode\<close> reads its error.\<close>

definition canceledState :: call_state where
  "canceledState = initState\<lparr>ctxErr := Some Canceled\<rparr>"

lemmas config_defs =
  echoCodec_def echoTransport_def node1_def fixedSelector_def baseOptions_def freshMsg_def
  initState_def stdEnv_def

lemmas request_defs =
  Let_def
  prepareRequestBuf_def serializeAndCompress_def marshalStage_def compressStage_def
  IsValidSerializationType_def emit_def NewFrameError_def

lemmas response_defs =
  Let_def
  processResponseBuf_def decompressStage_def unmarshalStage_def
  IsValidSerializationType_def emit_def NewFrameError_def

lemmas callFunc_defs = callFunc_def callFunc_body_def request_defs response_defs

lemmas selector_defs =
  Let_def
  selectorFilter_def selectNode_def getNode_def callNextAndReport_def ensureMsgRemoteAddr_def
  tcpNetworks_def udpNetworks_def
  frameworkNetError_def emit_def NewFrameError_def

lemmas invoke_defs =
  Invoke_def Invoke_setup_def getOptions_def getServiceInfoOptions_def updateMsg_def
  getMetaData_def setAttachment_def WithTimeout_def fixFilters_def IsValidSerializationType_def

section \<open>Properties\<close>

subsection \<open>What each stage does to the state\<close>

lemma marshalStage_state:
  "marshalStage env reqBody st = (st1, buf, err) \<Longrightarrow>
     \<exists>evs. st1 = st\<lparr>trace := trace st @ evs\<rparr> \<and> (\<forall>e \<in> set evs. isMarshal e)"
  by (auto simp: marshalStage_def emit_def Let_def split: if_splits prod.splits
           intro: exI[of _ "[]"] exI[of _ "[e]" for e])

lemma compressStage_state:
  "compressStage env b st = (st1, buf, err) \<Longrightarrow>
     \<exists>evs. st1 = st\<lparr>trace := trace st @ evs\<rparr> \<and> (\<forall>e \<in> set evs. isCompress e)"
  by (auto simp: compressStage_def emit_def Let_def split: if_splits prod.splits
           intro: exI[of _ "[]"] exI[of _ "[e]" for e])

lemma serializeAndCompress_state:
  assumes "serializeAndCompress env reqBody st = (st1, r)"
  shows "\<exists>evs. st1 = st\<lparr>trace := trace st @ evs\<rparr> \<and> (\<forall>e \<in> set evs. isMarshal e \<or> isCompress e)"
proof -
  obtain sa ba ea where a: "marshalStage env reqBody st = (sa, ba, ea)"
    by (cases "marshalStage env reqBody st") auto
  obtain sb bb eb where b: "compressStage env ba sa = (sb, bb, eb)"
    by (cases "compressStage env ba sa") auto
  from marshalStage_state[OF a] obtain ev1 where
    1: "sa = st\<lparr>trace := trace st @ ev1\<rparr>" "\<forall>e \<in> set ev1. isMarshal e" by blast
  from compressStage_state[OF b] obtain ev2 where
    2: "sb = sa\<lparr>trace := trace sa @ ev2\<rparr>" "\<forall>e \<in> set ev2. isCompress e" by blast
  show ?thesis
  proof (cases ea)
    case None
    with assms a b have "st1 = sb" by (auto simp: serializeAndCompress_def split: option.splits)
    with 1 2 show ?thesis by (intro exI[of _ "ev1 @ ev2"]) auto
  next
    case (Some e)
    with assms a have "st1 = sa" by (auto simp: serializeAndCompress_def)
    with 1 show ?thesis by (intro exI[of _ "ev1"]) auto
  qed
qed

lemma request_event_kinds:
  "isMarshal e \<or> isCompress e \<Longrightarrow>
     \<not> isResponseEvent e \<and> \<not> isBodyEvent e \<and> \<not> isRoundTrip e \<and> \<not> isReport e \<and> \<not> isFixTimeout e"
  by (cases e) auto

lemma prepareRequestBuf_state:
  assumes "prepareRequestBuf env cdc reqBody st = (st1, r)"
  shows "opts st1 = opts st \<and> rspBody st1 = rspBody st \<and> now st1 = now st \<and>
         (\<exists>evs. trace st1 = trace st @ evs \<and>
                (\<forall>e \<in> set evs. \<not> isResponseEvent e \<and> \<not> isBodyEvent e \<and> \<not> isRoundTrip e \<and>
                                 \<not> isReport e \<and> \<not> isFixTimeout e))"
proof -
  obtain sa ra where a: "serializeAndCompress env reqBody st = (sa, ra)"
    by (cases "serializeAndCompress env reqBody st") auto
  from serializeAndCompress_state[OF a] obtain ev1 where
    1: "sa = st\<lparr>trace := trace st @ ev1\<rparr>" "\<forall>e \<in> set ev1. isMarshal e \<or> isCompress e" by blast
  from 1(2) have k: "\<forall>e \<in> set ev1. \<not> isResponseEvent e \<and> \<not> isBodyEvent e \<and> \<not> isRoundTrip e \<and>
                                    \<not> isReport e \<and> \<not> isFixTimeout e"
    using request_event_kinds by blast
  show ?thesis
  proof (cases ra)
    case (Inl err)
    with assms a have "st1 = sa" by (simp add: prepareRequestBuf_def)
    with 1 k show ?thesis by auto
  next
    case (Inr b)
    obtain m reqBuf err where c: "Encode cdc (msg sa) b = (m, reqBuf, err)"
      by (cases "Encode cdc (msg sa) b") auto
    with assms a Inr have "st1 = (emit (EvEncode b) sa)\<lparr>msg := m\<rparr>"
      by (auto simp: prepareRequestBuf_def Let_def split: option.splits)
    with 1 k show ?thesis by (auto simp: emit_def)
  qed
qed

subsection \<open>The two adapters\<close>

lemma isFixTimeoutAdapter_nil:
  "isFixTimeoutAdapter f \<Longrightarrow> f None = None"
  by (auto simp: isFixTimeoutAdapter_def mayConvert2FullLinkTimeout_def)

lemma isFixTimeoutAdapter_error:
  "isFixTimeoutAdapter f \<Longrightarrow> f (Some e) \<noteq> None"
  by (auto simp: isFixTimeoutAdapter_def mayConvert2FullLinkTimeout_def split: error.splits)

lemma isFixTimeoutAdapter_other:
  "isFixTimeoutAdapter f \<Longrightarrow> c \<noteq> RetClientTimeout \<Longrightarrow>
     f (Some (NewFrameError c m)) = Some (NewFrameError c m)"
  by (auto simp: isFixTimeoutAdapter_def mayConvert2FullLinkTimeout_def NewFrameError_def)

subsection \<open>Send-only calls and transport errors\<close>

text \<open>
  Claim C9. Suppose \<^verbatim>\<open>callFunc\<close> reaches the transport (the codec is set and the
  request buffer was prepared) and \<^verbatim>\<open>RoundTrip\<close> returns an error \<open>e\<close>. If \<open>e\<close> is the
  sentinel \<^verbatim>\<open>ErrClientNoResponse\<close>, \<^verbatim>\<open>callFunc\<close> returns nil; any other error is
  returned to the caller, through the call's \<^verbatim>\<open>fixTimeout\<close> adapter, and as it is when
  the adapter is the identity. In both cases the call adds no decode, decompress or
  unmarshal event to the trace and leaves the response body as it was.
\<close>

theorem roundTrip_error_ends_call:
  assumes cdc: "Codec (opts st) = Some cdc"
    and prep: "prepareRequestBuf env cdc reqBody st = (st1, Inr reqBuf)"
    and st2: "st2 = (if EnableMultiplexed (opts st1)
                     then st1\<lparr>opts := (opts st1)\<lparr>CallOptions :=
                            CallOptions (opts st1) @ [WithMsg, WithMultiplexed True]\<rparr>\<rparr>
                     else st1)"
    and rt: "RoundTrip (Transport (opts st2)) (msg st2) reqBuf (CallOptions (opts st2)) = (m, rspBuf, Some e)"
    and adapter: "isFixTimeoutAdapter (fixTimeout (opts st))"
  shows "(e = ErrClientNoResponse \<longrightarrow> snd (callFunc env reqBody st) = None) \<and>
         (e \<noteq> ErrClientNoResponse \<longrightarrow>
            snd (callFunc env reqBody st) = fixTimeout (opts st) (Some e) \<and>
            snd (callFunc env reqBody st) \<noteq> None \<and>
            (fixTimeout (opts st) = (\<lambda>err. err) \<longrightarrow> snd (callFunc env reqBody st) = Some e)) \<and>
         filter isResponseEvent (trace (fst (callFunc env reqBody st))) =
           filter isResponseEvent (trace st) \<and>
         rspBody (fst (callFunc env reqBody st)) = rspBody st"
proof -
  from prepareRequestBuf_state[OF prep] obtain evs where
    p: "opts st1 = opts st" "rspBody st1 = rspBody st" "trace st1 = trace st @ evs"
       "\<forall>e \<in> set evs. \<not> isResponseEvent e" by blast
  let ?st3 = "(emit (EvRoundTrip reqBuf (CallOptions (opts st2))) st2)\<lparr>msg := m\<rparr>"
  let ?err = "if e = ErrClientNoResponse then None else Some e"
  have f2: "fixTimeout (opts st2) = fixTimeout (opts st)" using st2 p(1) by simp
  have body: "callFunc_body env reqBody st = (?st3, ?err)"
    using cdc prep rt st2 by (simp add: callFunc_body_def Let_def)
  have f3: "fixTimeout (opts ?st3) = fixTimeout (opts st)" using f2 by (simp add: emit_def)
  have res: "snd (callFunc env reqBody st) = fixTimeout (opts st) ?err"
    using body f3 by (simp add: callFunc_def)
  have tr: "trace (fst (callFunc env reqBody st)) =
              trace st @ evs @ [EvRoundTrip reqBuf (CallOptions (opts st2)),
                                EvFixTimeout ?err (fixTimeout (opts ?st3) ?err)]"
    using body st2 p(3) by (simp add: callFunc_def emit_def)
  have rb: "rspBody (fst (callFunc env reqBody st)) = rspBody st"
    using body st2 p(2) by (simp add: callFunc_def emit_def)
  from tr p(4) have ev: "filter isResponseEvent (trace (fst (callFunc env reqBody st))) =
                           filter isResponseEvent (trace st)"
    by simp
  show ?thesis
    using res ev rb isFixTimeoutAdapter_nil[OF adapter] isFixTimeoutAdapter_error[OF adapter]
    by auto
qed
theorem roundTrip_error_ends_call_witness:
  "Codec (opts sendOnlyState) = Some echoCodec \<and>
   snd (prepareRequestBuf stdEnv echoCodec ''req'' sendOnlyState) = Inr [1, 2, 3] \<and>
   snd (snd (RoundTrip (Transport (opts sendOnlyState)) (msg sendOnlyState) [1, 2, 3] [])) = Some ErrClientNoResponse \<and>
   isFixTimeoutAdapter (fixTimeout (opts sendOnlyState)) \<and>
   snd (callFunc stdEnv ''req'' sendOnlyState) = None \<and>
   filter isResponseEvent (trace (fst (callFunc stdEnv ''req'' sendOnlyState))) = [] \<and>
   rspBody (fst (callFunc stdEnv ''req'' sendOnlyState)) = '''' \<and>
   Codec (opts timeoutState) = Some echoCodec \<and>
   snd (prepareRequestBuf stdEnv echoCodec ''req'' timeoutState) = Inr [1, 2, 3] \<and>
   snd (snd (RoundTrip (Transport (opts timeoutState)) (msg timeoutState) [1, 2, 3] [])) = Some (ErrsError timeoutErr) \<and>
   isFixTimeoutAdapter (fixTimeout (opts timeoutState)) \<and>
   snd (callFunc stdEnv ''req'' timeoutState) = Some (ErrsError timeoutErr) \<and>
   filter isResponseEvent (trace (fst (callFunc stdEnv ''req'' timeoutState))) = []"
proof -
  let ?st1 = "fst (prepareRequestBuf stdEnv echoCodec ''req'' sendOnlyState)"
  have h1: "Codec (opts sendOnlyState) = Some echoCodec"
    by (simp add: sendOnlyState_def config_defs)
  have g2: "snd (prepareRequestBuf stdEnv echoCodec ''req'' sendOnlyState) = Inr [1, 2, 3]"
    by (simp add: sendOnlyState_def config_defs request_defs)
  have h2: "prepareRequestBuf stdEnv echoCodec ''req'' sendOnlyState = (?st1, Inr [1, 2, 3])"
    using g2 by (simp add: prod_eq_iff)
  have o1: "opts ?st1 = opts sendOnlyState" "msg ?st1 = msg sendOnlyState"
    by (simp_all add: sendOnlyState_def config_defs request_defs)
  have g4: "snd (snd (RoundTrip (Transport (opts sendOnlyState)) (msg sendOnlyState) [1, 2, 3] [])) = Some ErrClientNoResponse"
    by (simp add: sendOnlyState_def sendOnlyTransport_def config_defs)
  have h4: "RoundTrip (Transport (opts ?st1)) (msg ?st1) [1, 2, 3] (CallOptions (opts ?st1)) =
              (msg sendOnlyState, [], Some ErrClientNoResponse)"
    unfolding o1 by (simp add: sendOnlyState_def sendOnlyTransport_def config_defs)
  have h3: "?st1 = (if EnableMultiplexed (opts ?st1)
                     then ?st1\<lparr>opts := (opts ?st1)\<lparr>CallOptions :=
                            CallOptions (opts ?st1) @ [WithMsg, WithMultiplexed True]\<rparr>\<rparr>
                     else ?st1)"
    unfolding o1 by (simp add: sendOnlyState_def config_defs)
  have h5: "isFixTimeoutAdapter (fixTimeout (opts sendOnlyState))"
    by (simp add: isFixTimeoutAdapter_def sendOnlyState_def config_defs)
  have t: "trace sendOnlyState = []" "rspBody sendOnlyState = ''''"
    by (simp_all add: sendOnlyState_def config_defs)
  from roundTrip_error_ends_call[OF h1 h2 h3 h4 h5]
  have c: "snd (callFunc stdEnv ''req'' sendOnlyState) = None"
          "filter isResponseEvent (trace (fst (callFunc stdEnv ''req'' sendOnlyState))) = []"
          "rspBody (fst (callFunc stdEnv ''req'' sendOnlyState)) = ''''"
    using t by simp_all
  let ?tt1 = "fst (prepareRequestBuf stdEnv echoCodec ''req'' timeoutState)"
  have k1: "Codec (opts timeoutState) = Some echoCodec"
    by (simp add: timeoutState_def config_defs)
  have j2: "snd (prepareRequestBuf stdEnv echoCodec ''req'' timeoutState) = Inr [1, 2, 3]"
    by (simp add: timeoutState_def config_defs request_defs)
  have k2: "prepareRequestBuf stdEnv echoCodec ''req'' timeoutState = (?tt1, Inr [1, 2, 3])"
    using j2 by (simp add: prod_eq_iff)
  have p1: "opts ?tt1 = opts timeoutState" "msg ?tt1 = msg timeoutState"
    by (simp_all add: timeoutState_def config_defs request_defs)
  have j4: "snd (snd (RoundTrip (Transport (opts timeoutState)) (msg timeoutState) [1, 2, 3] [])) = Some (ErrsError timeoutErr)"
    by (simp add: timeoutState_def timeoutTransport_def config_defs)
  have k4: "RoundTrip (Transport (opts ?tt1)) (msg ?tt1) [1, 2, 3] (CallOptions (opts ?tt1)) =
              (msg timeoutState, [], Some (ErrsError timeoutErr))"
    unfolding p1 by (simp add: timeoutState_def timeoutTransport_def config_defs)
  have k3: "?tt1 = (if EnableMultiplexed (opts ?tt1)
                     then ?tt1\<lparr>opts := (opts ?tt1)\<lparr>CallOptions :=
                            CallOptions (opts ?tt1) @ [WithMsg, WithMultiplexed True]\<rparr>\<rparr>
                     else ?tt1)"
    unfolding p1 by (simp add: timeoutState_def config_defs)
  have k5: "isFixTimeoutAdapter (fixTimeout (opts timeoutState))"
    by (simp add: isFixTimeoutAdapter_def timeoutState_def config_defs)
  have u: "trace timeoutState = []" "fixTimeout (opts timeoutState) = (\<lambda>err. err)"
    by (simp_all add: timeoutState_def config_defs)
  from roundTrip_error_ends_call[OF k1 k2 k3 k4 k5]
  have d: "snd (callFunc stdEnv ''req'' timeoutState) = Some (ErrsError timeoutErr)"
          "filter isResponseEvent (trace (fst (callFunc stdEnv ''req'' timeoutState))) = []"
    using u by simp_all
  show ?thesis using c h1 g2 g4 h5 d k1 j2 j4 k5 by simp
qed

subsection \<open>Marshalling and the serialization type\<close>

lemma compressStage_no_marshal:
  "filter isMarshal (trace (fst (compressStage env b st))) = filter isMarshal (trace st)"
  by (simp add: compressStage_def emit_def Let_def split: prod.splits)

lemma marshalStage_no_compress:
  "filter isCompress (trace (fst (marshalStage env b st))) = filter isCompress (trace st)"
  by (simp add: marshalStage_def emit_def Let_def split: prod.splits)

lemma marshalStage_fields:
  "msg (fst (marshalStage env b st)) = msg st \<and> opts (fst (marshalStage env b st)) = opts st"
  by (simp add: marshalStage_def emit_def Let_def split: prod.splits)

lemma serializeAndCompress_trace:
  "trace (fst (serializeAndCompress env reqBody st)) =
     (case marshalStage env reqBody st of
        (st1, buf, Some err) \<Rightarrow> trace st1
      | (st1, buf, None) \<Rightarrow> trace (fst (compressStage env buf st1)))"
  by (simp add: serializeAndCompress_def split: prod.splits option.splits)

text \<open>
  Claim C8. A serialization type is valid iff it is at least the floor
  \<^verbatim>\<open>SerializationTypePB\<close>. With \<open>t\<close> the effective type of the request path
  (\<^verbatim>\<open>Options.CurrentSerializationType\<close> when valid, else the message's type), the
  marshal stage calls \<^verbatim>\<open>Marshal\<close> with \<open>t\<close> when \<open>t\<close> is valid and otherwise
  leaves an empty body buffer and a nil error without a call; over the whole of
  \<^verbatim>\<open>serializeAndCompress\<close> there is one \<^verbatim>\<open>Marshal\<close> event iff \<open>t\<close> is valid, and
  for an invalid \<open>t\<close> the function goes on to the compress stage with the empty buffer.
\<close>

theorem marshal_iff_valid_type:
  assumes t: "t = (if IsValidSerializationType env (CurrentSerializationType (opts st))
                   then CurrentSerializationType (opts st) else serializationType (msg st))"
  shows "(\<forall>u. IsValidSerializationType env u = (SerializationTypePB env \<le> u)) \<and>
         marshalStage env reqBody st =
           (if IsValidSerializationType env t
            then (emit (EvMarshal t reqBody) st, Marshal env t reqBody)
            else (st, [], None)) \<and>
         filter isMarshal (trace (fst (serializeAndCompress env reqBody st))) =
           filter isMarshal (trace st) @ (if IsValidSerializationType env t then [EvMarshal t reqBody] else []) \<and>
         (\<not> IsValidSerializationType env t \<longrightarrow>
            serializeAndCompress env reqBody st =
              (case compressStage env [] st of
                 (st2, buf, Some err) \<Rightarrow>
                   (st2, Inl (NewFrameError RetClientEncodeFail (''client codec Compress: '' @ Error_text env err)))
               | (st2, buf, None) \<Rightarrow> (st2, Inr buf)))"
proof -
  have a: "\<forall>u. IsValidSerializationType env u = (SerializationTypePB env \<le> u)"
    by (simp add: IsValidSerializationType_def)
  have b: "marshalStage env reqBody st =
           (if IsValidSerializationType env t
            then (emit (EvMarshal t reqBody) st, Marshal env t reqBody)
            else (st, [], None))"
    unfolding t by (simp add: marshalStage_def Let_def split: prod.splits)
  have c: "filter isMarshal (trace (fst (serializeAndCompress env reqBody st))) =
           filter isMarshal (trace st) @ (if IsValidSerializationType env t then [EvMarshal t reqBody] else [])"
    unfolding serializeAndCompress_trace b
    by (cases "Marshal env t reqBody")
       (auto simp: compressStage_no_marshal emit_def split: option.splits)
  have d: "\<not> IsValidSerializationType env t \<longrightarrow>
            serializeAndCompress env reqBody st =
              (case compressStage env [] st of
                 (st2, buf, Some err) \<Rightarrow>
                   (st2, Inl (NewFrameError RetClientEncodeFail (''client codec Compress: '' @ Error_text env err)))
               | (st2, buf, None) \<Rightarrow> (st2, Inr buf))"
    unfolding serializeAndCompress_def b by (simp split: prod.splits option.splits)
  from a b c d show ?thesis by blast
qed

theorem marshal_iff_valid_type_witness:
  "\<not> IsValidSerializationType stdEnv (CurrentSerializationType (opts noTypeState)) \<and>
   \<not> IsValidSerializationType stdEnv (serializationType (msg noTypeState)) \<and>
   marshalStage stdEnv ''req'' noTypeState = (noTypeState, [], None) \<and>
   filter isMarshal (trace (fst (serializeAndCompress stdEnv ''req'' noTypeState))) = [] \<and>
   IsValidSerializationType stdEnv (serializationType (msg initState)) \<and>
   filter isMarshal (trace (fst (serializeAndCompress stdEnv ''req'' initState))) = [EvMarshal 2 ''req'']"
proof -
  have v: "\<not> IsValidSerializationType stdEnv (CurrentSerializationType (opts noTypeState))"
          "\<not> IsValidSerializationType stdEnv (serializationType (msg noTypeState))"
          "\<not> IsValidSerializationType stdEnv (CurrentSerializationType (opts initState))"
          "IsValidSerializationType stdEnv (serializationType (msg initState))"
          "serializationType (msg initState) = 2"
          "trace noTypeState = []" "trace initState = []"
    by (simp_all add: noTypeState_def config_defs IsValidSerializationType_def)
  have t1: "serializationType (msg noTypeState) =
              (if IsValidSerializationType stdEnv (CurrentSerializationType (opts noTypeState))
               then CurrentSerializationType (opts noTypeState) else serializationType (msg noTypeState))"
    using v by simp
  have t2: "serializationType (msg initState) =
              (if IsValidSerializationType stdEnv (CurrentSerializationType (opts initState))
               then CurrentSerializationType (opts initState) else serializationType (msg initState))"
    using v by simp
  note A = marshal_iff_valid_type[OF t1, of "''req''"]
  note B = marshal_iff_valid_type[OF t2, of "''req''"]
  have c1: "marshalStage stdEnv ''req'' noTypeState = (noTypeState, [], None)"
    using A[THEN conjunct2, THEN conjunct1] v by simp
  have c2: "filter isMarshal (trace (fst (serializeAndCompress stdEnv ''req'' noTypeState))) = []"
    using A[THEN conjunct2, THEN conjunct2, THEN conjunct1] v by simp
  have c3: "filter isMarshal (trace (fst (serializeAndCompress stdEnv ''req'' initState))) = [EvMarshal 2 ''req'']"
    using B[THEN conjunct2, THEN conjunct2, THEN conjunct1] v by simp
  show ?thesis using c1 c2 c3 v by simp
qed

subsection \<open>Compression of the request body\<close>

text \<open>
  Claim C10, as stated, fails: the effective compress type is valid and not noop, yet
  \<^verbatim>\<open>serializeAndCompress\<close> does not invoke \<^verbatim>\<open>Compress\<close>, because \<^verbatim>\<open>Marshal\<close>
  failed and the function returned \<^verbatim>\<open>ClientEncodeFail\<close> before the compress stage.
\<close>

theorem compress_skipped_counterexample:
  "\<not> IsValidCompressType failingMarshalEnv (CurrentCompressType (opts gzipState)) \<and>
   IsValidCompressType failingMarshalEnv (compressType (msg gzipState)) \<and>
   compressType (msg gzipState) \<noteq> CompressTypeNoop failingMarshalEnv \<and>
   filter isCompress (trace (fst (serializeAndCompress failingMarshalEnv ''req'' gzipState))) = [] \<and>
   snd (serializeAndCompress failingMarshalEnv ''req'' gzipState) =
     Inl (NewFrameError RetClientEncodeFail ''client codec Marshal: marshal failed'')"
  by (simp add: failingMarshalEnv_def gzipState_def config_defs request_defs)

lemma processResponseBuf_empty:
  "clientRspErr (msg st) = None \<Longrightarrow> processResponseBuf env [] st = (st, None)"
  by (simp add: processResponseBuf_def)

text \<open>
  Claim C10, amended. Whenever marshalling has not failed, \<^verbatim>\<open>serializeAndCompress\<close>
  invokes \<^verbatim>\<open>Compress\<close> exactly when the effective compress type \<open>c\<close> is valid and
  not noop, on the buffer \<open>buf\<close> that the marshal stage left, whatever its length: also
  on the empty buffer that an invalid serialization type leaves. There is no
  empty-buffer skip like the one of the response path, where, for a message without a
  response error, an empty decoded body buffer makes \<^verbatim>\<open>processResponseBuf\<close> return nil
  with the state untouched, before decompress and unmarshal.
\<close>

theorem compress_runs_on_any_buffer:
  assumes m: "marshalStage env reqBody st = (st1, buf, None)"
    and c: "c = (if IsValidCompressType env (CurrentCompressType (opts st))
                 then CurrentCompressType (opts st) else compressType (msg st))"
  shows "filter isCompress (trace (fst (serializeAndCompress env reqBody st))) =
           filter isCompress (trace st) @
           (if IsValidCompressType env c \<and> c \<noteq> CompressTypeNoop env then [EvCompress c buf] else []) \<and>
         (\<not> IsValidSerializationType env
              (if IsValidSerializationType env (CurrentSerializationType (opts st))
               then CurrentSerializationType (opts st) else serializationType (msg st)) \<longrightarrow> buf = []) \<and>
         (\<forall>st'. clientRspErr (msg st') = None \<longrightarrow>
                 processResponseBuf env [] st' = (st', None))"
proof -
  from marshalStage_fields[of env reqBody st] m
  have f: "msg st1 = msg st" "opts st1 = opts st" by simp_all
  from marshalStage_no_compress[of env reqBody st] m
  have n: "filter isCompress (trace st1) = filter isCompress (trace st)" by simp
  have tr: "trace (fst (serializeAndCompress env reqBody st)) = trace (fst (compressStage env buf st1))"
    using m by (simp add: serializeAndCompress_trace)
  have cs: "trace (fst (compressStage env buf st1)) =
              trace st1 @ (if IsValidCompressType env c \<and> c \<noteq> CompressTypeNoop env then [EvCompress c buf] else [])"
    unfolding c using f by (auto simp: compressStage_def emit_def Let_def split: prod.splits)
  have a: "filter isCompress (trace (fst (serializeAndCompress env reqBody st))) =
           filter isCompress (trace st) @
           (if IsValidCompressType env c \<and> c \<noteq> CompressTypeNoop env then [EvCompress c buf] else [])"
    unfolding tr cs using n by simp
  have b: "\<not> IsValidSerializationType env
              (if IsValidSerializationType env (CurrentSerializationType (opts st))
               then CurrentSerializationType (opts st) else serializationType (msg st)) \<longrightarrow> buf = []"
    using m by (auto simp: marshalStage_def Let_def split: if_splits prod.splits)
  from a b processResponseBuf_empty show ?thesis by blast
qed

theorem compress_runs_on_any_buffer_witness:
  "marshalStage stdEnv ''req'' noTypeState = (noTypeState, [], None) \<and>
   \<not> IsValidCompressType stdEnv (CurrentCompressType (opts noTypeState)) \<and>
   compressType (msg noTypeState) = 1 \<and>
   IsValidCompressType stdEnv 1 \<and> 1 \<noteq> CompressTypeNoop stdEnv \<and>
   filter isCompress (trace (fst (serializeAndCompress stdEnv ''req'' noTypeState))) = [EvCompress 1 []] \<and>
   clientRspErr (msg gzipState) = None \<and>
   processResponseBuf stdEnv [] gzipState = (gzipState, None)"
proof -
  have m: "marshalStage stdEnv ''req'' noTypeState = (noTypeState, [], None)"
    by (simp add: noTypeState_def config_defs request_defs)
  have v: "\<not> IsValidCompressType stdEnv (CurrentCompressType (opts noTypeState))"
          "compressType (msg noTypeState) = 1"
          "IsValidCompressType stdEnv 1" "1 \<noteq> CompressTypeNoop stdEnv"
          "trace noTypeState = []" "clientRspErr (msg gzipState) = None"
    by (simp_all add: noTypeState_def gzipState_def config_defs)
  have c: "(1::int) = (if IsValidCompressType stdEnv (CurrentCompressType (opts noTypeState))
                 then CurrentCompressType (opts noTypeState) else compressType (msg noTypeState))"
    using v by simp
  note A = compress_runs_on_any_buffer[OF m c]
  have c1: "filter isCompress (trace (fst (serializeAndCompress stdEnv ''req'' noTypeState))) = [EvCompress 1 []]"
    using A[THEN conjunct1] v by simp
  have c2: "processResponseBuf stdEnv [] gzipState = (gzipState, None)"
    using A[THEN conjunct2, THEN conjunct2] v(6) by blast
  show ?thesis using m v c1 c2 by simp
qed

subsection \<open>The response error\<close>

text \<open>
  Claim C3, as stated, fails: \<^verbatim>\<open>Decode\<close> leaves a non-nil \<^verbatim>\<open>ClientRspErr\<close> in the
  message and returns an error of its own; \<^verbatim>\<open>callFunc\<close> then returns
  \<^verbatim>\<open>ClientDecodeFail\<close>, not the response error.
\<close>

theorem response_error_lost_counterexample:
  "clientRspErr (msg (fst (callFunc stdEnv ''req'' brokenCodecState))) = Some bizErr \<and>
   snd (callFunc stdEnv ''req'' brokenCodecState) =
     Some (NewFrameError RetClientDecodeFail ''client codec Decode: bad frame'') \<and>
   snd (callFunc stdEnv ''req'' brokenCodecState) \<noteq> Some bizErr"
  by (simp add: brokenCodecState_def brokenCodec_def bizErr_def config_defs callFunc_defs)

lemma processResponseBuf_rspErr:
  "clientRspErr (msg st) = Some e \<Longrightarrow> processResponseBuf env buf st = (st, Some e)"
  by (simp add: processResponseBuf_def)

text \<open>
  Claim C3, amended. If \<^verbatim>\<open>Codec.Decode\<close> returns no error and leaves a non-nil
  \<^verbatim>\<open>Message.ClientRspErr\<close>, then \<^verbatim>\<open>callFunc\<close> returns that error, passed through
  the call's \<^verbatim>\<open>fixTimeout\<close> adapter (so as it is under the identity), and the
  response body object is left untouched: no decompress or unmarshal event is added,
  whatever the decoded body buffer holds.
\<close>

theorem response_error_short_circuit:
  assumes cdc: "Codec (opts st) = Some cdc"
    and prep: "prepareRequestBuf env cdc reqBody st = (st1, Inr reqBuf)"
    and st2: "st2 = (if EnableMultiplexed (opts st1)
                     then st1\<lparr>opts := (opts st1)\<lparr>CallOptions :=
                            CallOptions (opts st1) @ [WithMsg, WithMultiplexed True]\<rparr>\<rparr>
                     else st1)"
    and rt: "RoundTrip (Transport (opts st2)) (msg st2) reqBuf (CallOptions (opts st2)) = (m, rspBuf, None)"
    and dec: "Decode cdc m rspBuf = (m', rspBodyBuf, None)"
    and rspErr: "clientRspErr m' = Some e"
  shows "snd (callFunc env reqBody st) = fixTimeout (opts st) (Some e) \<and>
         (fixTimeout (opts st) = (\<lambda>err. err) \<longrightarrow> snd (callFunc env reqBody st) = Some e) \<and>
         rspBody (fst (callFunc env reqBody st)) = rspBody st \<and>
         filter isBodyEvent (trace (fst (callFunc env reqBody st))) = filter isBodyEvent (trace st)"
proof -
  from prepareRequestBuf_state[OF prep] obtain evs where
    p: "opts st1 = opts st" "rspBody st1 = rspBody st" "trace st1 = trace st @ evs"
       "\<forall>e \<in> set evs. \<not> isBodyEvent e" by blast
  let ?st3 = "(emit (EvRoundTrip reqBuf (CallOptions (opts st2))) st2)\<lparr>msg := m\<rparr>"
  let ?st4 = "(emit (EvDecode rspBuf) ?st3)\<lparr>msg := m'\<rparr>"
  have f2: "fixTimeout (opts st2) = fixTimeout (opts st)" using st2 p(1) by simp
  have m4: "clientRspErr (msg ?st4) = Some e" using rspErr by simp
  have body: "callFunc_body env reqBody st = (?st4, Some e)"
    using cdc prep rt dec st2 processResponseBuf_rspErr[OF m4]
    by (simp add: callFunc_body_def Let_def emit_def)
  have f4: "fixTimeout (opts ?st4) = fixTimeout (opts st)" using f2 by (simp add: emit_def)
  have res: "snd (callFunc env reqBody st) = fixTimeout (opts st) (Some e)"
    using body f4 by (simp add: callFunc_def)
  have tr: "trace (fst (callFunc env reqBody st)) =
              trace st @ evs @ [EvRoundTrip reqBuf (CallOptions (opts st2)), EvDecode rspBuf,
                                EvFixTimeout (Some e) (fixTimeout (opts ?st4) (Some e))]"
    using body st2 p(3) by (simp add: callFunc_def emit_def)
  have rb: "rspBody (fst (callFunc env reqBody st)) = rspBody st"
    using body st2 p(2) by (simp add: callFunc_def emit_def)
  from tr p(4) have ev: "filter isBodyEvent (trace (fst (callFunc env reqBody st))) =
                           filter isBodyEvent (trace st)"
    by simp
  show ?thesis using res ev rb by simp
qed

theorem response_error_short_circuit_witness:
  "Codec (opts rspErrState) = Some rspErrCodec \<and>
   snd (prepareRequestBuf stdEnv rspErrCodec ''req'' rspErrState) = Inr [1, 2, 3] \<and>
   RoundTrip (Transport (opts rspErrState)) (msg rspErrState) [1, 2, 3] [] = (msg rspErrState, [1, 2, 3], None) \<and>
   Decode rspErrCodec (msg rspErrState) [1, 2, 3] = ((msg rspErrState)\<lparr>clientRspErr := Some bizErr\<rparr>, [1, 2, 3], None) \<and>
   snd (callFunc stdEnv ''req'' rspErrState) = Some bizErr \<and>
   rspBody (fst (callFunc stdEnv ''req'' rspErrState)) = '''' \<and>
   filter isBodyEvent (trace (fst (callFunc stdEnv ''req'' rspErrState))) = []"
proof -
  let ?st1 = "fst (prepareRequestBuf stdEnv rspErrCodec ''req'' rspErrState)"
  have h1: "Codec (opts rspErrState) = Some rspErrCodec"
    by (simp add: rspErrState_def config_defs)
  have g2: "snd (prepareRequestBuf stdEnv rspErrCodec ''req'' rspErrState) = Inr [1, 2, 3]"
    by (simp add: rspErrState_def rspErrCodec_def config_defs request_defs)
  have h2: "prepareRequestBuf stdEnv rspErrCodec ''req'' rspErrState = (?st1, Inr [1, 2, 3])"
    using g2 by (simp add: prod_eq_iff)
  have o1: "opts ?st1 = opts rspErrState" "msg ?st1 = msg rspErrState"
    by (simp_all add: rspErrState_def rspErrCodec_def config_defs request_defs)
  have g4: "RoundTrip (Transport (opts rspErrState)) (msg rspErrState) [1, 2, 3] [] = (msg rspErrState, [1, 2, 3], None)"
    by (simp add: rspErrState_def config_defs)
  have h4: "RoundTrip (Transport (opts ?st1)) (msg ?st1) [1, 2, 3] (CallOptions (opts ?st1)) =
              (msg rspErrState, [1, 2, 3], None)"
    unfolding o1 by (simp add: rspErrState_def config_defs)
  have h3: "?st1 = (if EnableMultiplexed (opts ?st1)
                     then ?st1\<lparr>opts := (opts ?st1)\<lparr>CallOptions :=
                            CallOptions (opts ?st1) @ [WithMsg, WithMultiplexed True]\<rparr>\<rparr>
                     else ?st1)"
    unfolding o1 by (simp add: rspErrState_def config_defs)
  have h5: "Decode rspErrCodec (msg rspErrState) [1, 2, 3] =
              ((msg rspErrState)\<lparr>clientRspErr := Some bizErr\<rparr>, [1, 2, 3], None)"
    by (simp add: rspErrCodec_def)
  have h6: "clientRspErr ((msg rspErrState)\<lparr>clientRspErr := Some bizErr\<rparr>) = Some bizErr"
    by simp
  have t: "trace rspErrState = []" "rspBody rspErrState = ''''"
          "fixTimeout (opts rspErrState) = (\<lambda>err. err)"
    by (simp_all add: rspErrState_def config_defs)
  note A = response_error_short_circuit[OF h1 h2 h3 h4 h5 h6]
  have c: "snd (callFunc stdEnv ''req'' rspErrState) = Some bizErr"
          "rspBody (fst (callFunc stdEnv ''req'' rspErrState)) = ''''"
          "filter isBodyEvent (trace (fst (callFunc stdEnv ''req'' rspErrState))) = []"
    using A t by simp_all
  show ?thesis using c h1 g2 g4 h5 by simp
qed

subsection \<open>The effective filter chain\<close>

text \<open>
  Claim C5. The chain that \<^verbatim>\<open>fixFilters\<close> returns is exactly \<open>[SelectorFilter]\<close> when
  \<^verbatim>\<open>DisableFilter\<close> is set or the user's list is empty. Otherwise, when
  \<^verbatim>\<open>selectorFilterPosFixed\<close> is false, it is the user's list with the selector filter
  appended once at the tail: the list without its last entry is the user's list, the
  last entry is the selector filter, and the selector filter occurs once more than in
  the user's list. When \<^verbatim>\<open>selectorFilterPosFixed\<close> is true the chain is the user's
  list unchanged, so the selector filter stands at the positions where the user put it.
\<close>

theorem fixFilters_chain:
  "fst (fixFilters env os) =
     (if DisableFilter os \<or> Filters os = [] then [SelectorFilter]
      else if selectorFilterPosFixed os then Filters os
      else Filters os @ [SelectorFilter]) \<and>
   (\<not> DisableFilter os \<and> Filters os \<noteq> [] \<and> \<not> selectorFilterPosFixed os \<longrightarrow>
      butlast (fst (fixFilters env os)) = Filters os \<and>
      last (fst (fixFilters env os)) = SelectorFilter \<and>
      count_list (fst (fixFilters env os)) SelectorFilter = count_list (Filters os) SelectorFilter + 1) \<and>
   (\<not> DisableFilter os \<and> Filters os \<noteq> [] \<and> selectorFilterPosFixed os \<longrightarrow>
      length (fst (fixFilters env os)) = length (Filters os) \<and>
      (\<forall>i. (fst (fixFilters env os) ! i = SelectorFilter) = (Filters os ! i = SelectorFilter)))"
  by (simp add: fixFilters_def Let_def)

theorem fixFilters_chain_witness:
  "fst (fixFilters stdEnv baseOptions) = [SelectorFilter] \<and>
   fst (fixFilters stdEnv (twoFilters\<lparr>DisableFilter := True\<rparr>)) = [SelectorFilter] \<and>
   \<not> DisableFilter twoFilters \<and> Filters twoFilters \<noteq> [] \<and> \<not> selectorFilterPosFixed twoFilters \<and>
   fst (fixFilters stdEnv twoFilters) = [UserFilter 0, UserFilter 1, SelectorFilter] \<and>
   count_list (fst (fixFilters stdEnv twoFilters)) SelectorFilter = 1 \<and>
   \<not> DisableFilter pinnedFilters \<and> Filters pinnedFilters \<noteq> [] \<and> selectorFilterPosFixed pinnedFilters \<and>
   fst (fixFilters stdEnv pinnedFilters) = [UserFilter 0, SelectorFilter, UserFilter 1] \<and>
   fst (fixFilters stdEnv pinnedFilters) ! 1 = SelectorFilter"
proof -
  have v: "DisableFilter baseOptions = False" "Filters baseOptions = []"
    "DisableFilter (twoFilters\<lparr>DisableFilter := True\<rparr>)"
    "\<not> DisableFilter twoFilters" "Filters twoFilters = [UserFilter 0, UserFilter 1]"
    "\<not> selectorFilterPosFixed twoFilters"
    "\<not> DisableFilter pinnedFilters" "Filters pinnedFilters = [UserFilter 0, SelectorFilter, UserFilter 1]"
    "selectorFilterPosFixed pinnedFilters"
    by (simp_all add: twoFilters_def pinnedFilters_def config_defs)
  have a: "fst (fixFilters stdEnv baseOptions) = [SelectorFilter]"
    using fixFilters_chain[of stdEnv baseOptions, THEN conjunct1] v by simp
  have b: "fst (fixFilters stdEnv (twoFilters\<lparr>DisableFilter := True\<rparr>)) = [SelectorFilter]"
    using fixFilters_chain[of stdEnv "twoFilters\<lparr>DisableFilter := True\<rparr>", THEN conjunct1] v by simp
  have c: "fst (fixFilters stdEnv twoFilters) = [UserFilter 0, UserFilter 1, SelectorFilter]"
    using fixFilters_chain[of stdEnv twoFilters, THEN conjunct1] v by simp
  have d: "count_list (fst (fixFilters stdEnv twoFilters)) SelectorFilter = 1"
    using fixFilters_chain[of stdEnv twoFilters, THEN conjunct2, THEN conjunct1] v by simp
  have e: "fst (fixFilters stdEnv pinnedFilters) = [UserFilter 0, SelectorFilter, UserFilter 1]"
    using fixFilters_chain[of stdEnv pinnedFilters, THEN conjunct1] v by simp
  have f: "fst (fixFilters stdEnv pinnedFilters) ! 1 = SelectorFilter"
    using fixFilters_chain[of stdEnv pinnedFilters, THEN conjunct2, THEN conjunct2] v by simp
  show ?thesis using a b c d e f v by simp
qed

subsection \<open>Route failure\<close>

lemma getNode_failure:
  assumes "Select (Selector (opts st)) (endpoint (opts st)) (SelectOptions (opts st)) = r"
    and "(\<exists>e. r = Inl e) \<or> (\<exists>node. r = Inr node \<and> Address node = '''')"
  shows "\<exists>m. getNode env st =
           (emit (EvSelect (endpoint (opts st)) (SelectOptions (opts st))) st,
            Inl (NewFrameError RetClientRouteErr m))"
  using assms by (auto simp: getNode_def Let_def)

text \<open>
  Claim C6. If \<^verbatim>\<open>Selector.Select\<close> (called with the select options and the context
  option appended) returns an error or a node whose address is empty, then
  \<^verbatim>\<open>selectorFilter\<close> returns a \<^verbatim>\<open>ClientRouteErr\<close> framework error, its result does
  not depend on \<^verbatim>\<open>next\<close> (which is not invoked), and it adds neither a report nor a
  round trip to the trace.
\<close>

theorem route_failure_short_circuits:
  assumes sel: "Select (Selector (opts st)) (endpoint (opts st)) (SelectOptions (opts st) @ [WithContext]) = r"
    and bad: "(\<exists>e. r = Inl e) \<or> (\<exists>node. r = Inr node \<and> Address node = '''')"
    and adapter: "isFixTimeoutAdapter (fixTimeout (opts st))"
  shows "(\<exists>m. snd (selectorFilter env next st) = Some (NewFrameError RetClientRouteErr m)) \<and>
         (\<forall>next'. selectorFilter env next' st = selectorFilter env next st) \<and>
         filter isReport (trace (fst (selectorFilter env next st))) = filter isReport (trace st) \<and>
         filter isRoundTrip (trace (fst (selectorFilter env next st))) = filter isRoundTrip (trace st)"
proof -
  let ?st0 = "st\<lparr>opts := (opts st)\<lparr>SelectOptions := SelectOptions (opts st) @ [WithContext]\<rparr>\<rparr>"
  let ?st1 = "emit (EvSelect (endpoint (opts ?st0)) (SelectOptions (opts ?st0))) ?st0"
  let ?st2 = "emit (EvIncr ''SelectNodeFail'') ?st1"
  have s0: "Select (Selector (opts ?st0)) (endpoint (opts ?st0)) (SelectOptions (opts ?st0)) = r"
    using sel by simp
  from getNode_failure[OF s0 bad, of env] obtain m where
    g: "getNode env ?st0 = (?st1, Inl (NewFrameError RetClientRouteErr m))" by blast
  have sn: "selectNode env st = (?st2, Inl (NewFrameError RetClientRouteErr m))"
    using g by (simp add: selectNode_def Let_def)
  have fx: "fixTimeout (opts ?st2) = fixTimeout (opts st)" by (simp add: emit_def)
  have keep: "fixTimeout (opts st) (Some (NewFrameError RetClientRouteErr m)) = Some (NewFrameError RetClientRouteErr m)"
    using isFixTimeoutAdapter_other[OF adapter] by simp
  have r: "\<And>nx. snd (selectorFilter env nx st) = Some (NewFrameError RetClientRouteErr m)"
    using sn fx keep by (simp add: selectorFilter_def Let_def)
  have ind: "\<And>nx. selectorFilter env nx st = selectorFilter env next st"
    using sn by (simp add: selectorFilter_def Let_def)
  have tr: "trace (fst (selectorFilter env next st)) =
              trace st @ [EvSelect (endpoint (opts st)) (SelectOptions (opts st) @ [WithContext]),
                          EvIncr ''SelectNodeFail'',
                          EvFixTimeout (Some (NewFrameError RetClientRouteErr m))
                                       (Some (NewFrameError RetClientRouteErr m))]"
    using sn fx keep by (simp add: selectorFilter_def Let_def emit_def)
  show ?thesis using r ind tr by auto
qed

theorem route_failure_short_circuits_witness:
  "Select (Selector (opts emptyAddrState)) (endpoint (opts emptyAddrState))
      (SelectOptions (opts emptyAddrState) @ [WithContext]) = Inr (node1\<lparr>Address := ''''\<rparr>) \<and>
   Address (node1\<lparr>Address := ''''\<rparr>) = '''' \<and>
   isFixTimeoutAdapter (fixTimeout (opts emptyAddrState)) \<and>
   snd (selectorFilter stdEnv (callFunc stdEnv ''req'') emptyAddrState) =
     Some (NewFrameError RetClientRouteErr ''client Select: node address empty:'') \<and>
   filter isReport (trace (fst (selectorFilter stdEnv (callFunc stdEnv ''req'') emptyAddrState))) = [] \<and>
   filter isRoundTrip (trace (fst (selectorFilter stdEnv (callFunc stdEnv ''req'') emptyAddrState))) = [] \<and>
   Select (Selector (opts selectErrState)) (endpoint (opts selectErrState))
      (SelectOptions (opts selectErrState) @ [WithContext]) = Inl (GoError ''no instance'') \<and>
   isFixTimeoutAdapter (fixTimeout (opts selectErrState)) \<and>
   snd (selectorFilter stdEnv (callFunc stdEnv ''req'') selectErrState) =
     Some (NewFrameError RetClientRouteErr ''client Select: no instance'') \<and>
   filter isReport (trace (fst (selectorFilter stdEnv (callFunc stdEnv ''req'') selectErrState))) = [] \<and>
   filter isRoundTrip (trace (fst (selectorFilter stdEnv (callFunc stdEnv ''req'') selectErrState))) = []"
proof -
  have h1: "Select (Selector (opts emptyAddrState)) (endpoint (opts emptyAddrState))
              (SelectOptions (opts emptyAddrState) @ [WithContext]) = Inr (node1\<lparr>Address := ''''\<rparr>)"
    by (simp add: emptyAddrState_def config_defs)
  have h2: "Address (node1\<lparr>Address := ''''\<rparr>) = ''''" by simp
  have h2': "(\<exists>e. Inr (node1\<lparr>Address := ''''\<rparr>) = (Inl e :: error + Node)) \<or>
             (\<exists>node. Inr (node1\<lparr>Address := ''''\<rparr>) = (Inr node :: error + Node) \<and> Address node = '''')"
    by simp
  have h3: "isFixTimeoutAdapter (fixTimeout (opts emptyAddrState))"
    by (simp add: isFixTimeoutAdapter_def emptyAddrState_def config_defs)
  have t: "trace emptyAddrState = []" by (simp add: emptyAddrState_def config_defs)
  note A = route_failure_short_circuits[OF h1 h2' h3, of stdEnv "callFunc stdEnv ''req''"]
  have c: "filter isReport (trace (fst (selectorFilter stdEnv (callFunc stdEnv ''req'') emptyAddrState))) = []"
          "filter isRoundTrip (trace (fst (selectorFilter stdEnv (callFunc stdEnv ''req'') emptyAddrState))) = []"
    using A t by simp_all
  have d: "snd (selectorFilter stdEnv (callFunc stdEnv ''req'') emptyAddrState) =
             Some (NewFrameError RetClientRouteErr ''client Select: node address empty:'')"
    by (simp add: emptyAddrState_def config_defs selector_defs)
  have k1: "Select (Selector (opts selectErrState)) (endpoint (opts selectErrState))
              (SelectOptions (opts selectErrState) @ [WithContext]) = Inl (GoError ''no instance'')"
    by (simp add: selectErrState_def config_defs)
  have k2: "(\<exists>e. Inl (GoError ''no instance'') = (Inl e :: error + Node)) \<or>
            (\<exists>node. Inl (GoError ''no instance'') = (Inr node :: error + Node) \<and> Address node = '''')"
    by simp
  have k3: "isFixTimeoutAdapter (fixTimeout (opts selectErrState))"
    by (simp add: isFixTimeoutAdapter_def selectErrState_def config_defs)
  have u: "trace selectErrState = []" by (simp add: selectErrState_def config_defs)
  note B = route_failure_short_circuits[OF k1 k2 k3, of stdEnv "callFunc stdEnv ''req''"]
  have e: "filter isReport (trace (fst (selectorFilter stdEnv (callFunc stdEnv ''req'') selectErrState))) = []"
          "filter isRoundTrip (trace (fst (selectorFilter stdEnv (callFunc stdEnv ''req'') selectErrState))) = []"
    using B u by simp_all
  have f: "snd (selectorFilter stdEnv (callFunc stdEnv ''req'') selectErrState) =
             Some (NewFrameError RetClientRouteErr ''client Select: no instance'')"
    by (simp add: selectErrState_def config_defs selector_defs)
  show ?thesis using h1 h2 h3 c d k1 k3 e f by simp
qed

subsection \<open>The remote address\<close>

text \<open>What \<^verbatim>\<open>ensureMsgRemoteAddr\<close> does by cases: an address that is set stays; for
  the IP networks an address that does not split, or whose host is no literal IP, leaves
  the message as it is; in every other case the field receives the pointer that the
  resolver of the network returned.\<close>

lemma ensureMsgRemoteAddr_keeps_set:
  "remoteAddr m \<noteq> None \<Longrightarrow> ensureMsgRemoteAddr env m network address = m"
  by (simp add: ensureMsgRemoteAddr_def)

lemma ensureMsgRemoteAddr_defers_names:
  assumes "remoteAddr m = None"
    and "network \<in> set (tcpNetworks @ udpNetworks)"
    and "SplitHostPort env address = None \<or>
         (\<exists>host port. SplitHostPort env address = Some (host, port) \<and> ParseIP env host = None)"
  shows "ensureMsgRemoteAddr env m network address = m"
  using assms by (auto simp: ensureMsgRemoteAddr_def)

lemma ensureMsgRemoteAddr_resolves:
  assumes "remoteAddr m = None"
    and "network \<in> set (tcpNetworks @ udpNetworks) \<longrightarrow>
         (\<exists>host port. SplitHostPort env address = Some (host, port) \<and> ParseIP env host \<noteq> None)"
  shows "remoteAddr (ensureMsgRemoteAddr env m network address) =
           Some (if network \<in> set tcpNetworks
                 then TCPAddr (ResolveTCPAddr env network address)
                 else if network \<in> set udpNetworks
                 then UDPAddr (ResolveUDPAddr env network address)
                 else if network = ''unix''
                 then UnixAddr (ResolveUnixAddr env network address)
                 else TCPAddr (ResolveTCPAddr env ''tcp4'' address))"
  using assms by (auto simp: ensureMsgRemoteAddr_def Let_def)

text \<open>
  Claim C7 says that a resolution error leaves the remote-address field unset. On the
  network \<^verbatim>\<open>tcp\<close> and the address \<^verbatim>\<open>10.0.0.1:99999\<close> the address splits, the host
  is a literal IP and the resolver fails; the field then holds a \<^verbatim>\<open>net.Addr\<close> with a
  nil \<^verbatim>\<open>*TCPAddr\<close> inside, which is not nil, and \<^verbatim>\<open>selectorFilter\<close> publishes the
  node with the address text \<^verbatim>\<open><nil>\<close> instead of falling back to the node's address.
\<close>

theorem resolution_error_sets_remote_addr:
  "remoteAddr freshMsg = None \<and>
   SplitHostPort stdEnv ''10.0.0.1:99999'' = Some (''10.0.0.1'', ''99999'') \<and>
   ParseIP stdEnv ''10.0.0.1'' = Some [10, 0, 0, 1] \<and>
   ResolveTCPAddr stdEnv ''tcp'' ''10.0.0.1:99999'' = None \<and>
   remoteAddr (ensureMsgRemoteAddr stdEnv freshMsg ''tcp'' ''10.0.0.1:99999'') = Some (TCPAddr None) \<and>
   remoteAddr (ensureMsgRemoteAddr stdEnv freshMsg ''tcp'' ''10.0.0.1:99999'') \<noteq> None \<and>
   last (trace (fst (selectorFilter stdEnv (callFunc stdEnv ''req'') badPortState))) =
     EvNodeSet badPortNode ''<nil>'' 0"
  by (simp add: badPortState_def badPortNode_def config_defs selector_defs callFunc_defs)

subsection \<open>Feedback to the selector\<close>

text \<open>
  Claim C2, as stated, fails twice. A call enters \<^verbatim>\<open>selectorFilter\<close>, the selector
  returns a node without an address, and \<^verbatim>\<open>Report\<close> is not invoked at all. And with
  a user predicate that holds of the nil error, a successful \<^verbatim>\<open>next\<close> is reported
  with a nil error although \<^verbatim>\<open>shouldErrReportToSelector\<close> holds of the error from
  \<^verbatim>\<open>next\<close>.
\<close>

theorem report_counterexample:
  "filter isReport (trace (fst (selectorFilter stdEnv okNext emptyAddrState))) = [] \<and>
   shouldErrReportToSelector (opts alwaysReportState) None \<and>
   filter isReport (trace (fst (selectorFilter stdEnv okNext alwaysReportState))) = [EvReport node1 0 None]"
  by (simp add: emptyAddrState_def alwaysReportState_def okNext_def config_defs selector_defs)

lemma selectNode_no_report:
  "filter isReport (trace (fst (selectNode env st))) = filter isReport (trace st)"
  by (simp add: selectNode_def getNode_def emit_def Let_def split: sum.splits)

lemma selectNode_ctxErr:
  "ctxErr st = Some c \<Longrightarrow> \<exists>e. snd (selectNode env st) = Inl e"
  by (cases c) (simp_all add: selectNode_def getNode_def emit_def Let_def split: sum.splits)

lemma selectorFilter_failed_no_report:
  assumes "snd (selectNode env st) = Inl e"
  shows "filter isReport (trace (fst (selectorFilter env nxt st))) = filter isReport (trace st)"
proof -
  have s: "selectNode env st = (fst (selectNode env st), Inl e)"
    using assms by (simp add: prod_eq_iff)
  have "trace (fst (selectorFilter env nxt st)) =
          trace (fst (selectNode env st)) @
          [EvFixTimeout (Some e) (fixTimeout (opts (fst (selectNode env st))) (Some e))]"
    by (subst (1) selectorFilter_def, subst s) (simp add: Let_def emit_def)
  then show ?thesis using selectNode_no_report[of env st] by simp
qed

lemma decompressStage_no_report:
  "filter isReport (trace (fst (decompressStage env b st))) = filter isReport (trace st)"
  by (simp add: decompressStage_def emit_def Let_def split: prod.splits)

lemma unmarshalStage_no_report:
  "filter isReport (trace (fst (unmarshalStage env b st))) = filter isReport (trace st)"
  by (simp add: unmarshalStage_def emit_def Let_def split: prod.splits)

lemma processResponseBuf_no_report:
  "filter isReport (trace (fst (processResponseBuf env b st))) = filter isReport (trace st)"
proof -
  obtain sa ba ea where a: "decompressStage env b st = (sa, ba, ea)"
    by (cases "decompressStage env b st") auto
  obtain sb eb where u: "unmarshalStage env ba sa = (sb, eb)"
    by (cases "unmarshalStage env ba sa") auto
  have ta: "filter isReport (trace sa) = filter isReport (trace st)"
    using decompressStage_no_report[of env b st] a by simp
  have tb: "filter isReport (trace sb) = filter isReport (trace st)"
    using unmarshalStage_no_report[of env ba sa] u ta by simp
  have "fst (processResponseBuf env b st) = st \<or> fst (processResponseBuf env b st) = sa \<or>
        fst (processResponseBuf env b st) = sb"
    using a u by (cases ea; cases eb) (simp_all add: processResponseBuf_def)
  then show ?thesis using ta tb by auto
qed

lemma callFunc_body_no_report:
  "filter isReport (trace (fst (callFunc_body env reqBody st))) = filter isReport (trace st)"
proof (cases "Codec (opts st)")
  case None
  then show ?thesis by (simp add: callFunc_body_def emit_def)
next
  case (Some cdc)
  obtain st1 r where p: "prepareRequestBuf env cdc reqBody st = (st1, r)"
    by (cases "prepareRequestBuf env cdc reqBody st") auto
  from prepareRequestBuf_state[OF p] obtain ev1 where
    "trace st1 = trace st @ ev1" "\<forall>e \<in> set ev1. \<not> isReport e" by blast
  then have t1: "filter isReport (trace st1) = filter isReport (trace st)" by simp
  show ?thesis
  proof (cases r)
    case (Inl err)
    then show ?thesis using Some p t1 by (simp add: callFunc_body_def)
  next
    case (Inr reqBuf)
    let ?st2 = "(if EnableMultiplexed (opts st1)
                 then st1\<lparr>opts := (opts st1)\<lparr>CallOptions :=
                        CallOptions (opts st1) @ [WithMsg, WithMultiplexed True]\<rparr>\<rparr>
                 else st1)"
    obtain m rspBuf err where rt:
      "RoundTrip (Transport (opts ?st2)) (msg ?st2) reqBuf (CallOptions (opts ?st2)) = (m, rspBuf, err)"
      by (cases "RoundTrip (Transport (opts ?st2)) (msg ?st2) reqBuf (CallOptions (opts ?st2))") auto
    let ?st3 = "(emit (EvRoundTrip reqBuf (CallOptions (opts ?st2))) ?st2)\<lparr>msg := m\<rparr>"
    have t3: "filter isReport (trace ?st3) = filter isReport (trace st)"
      using t1 by (simp add: emit_def)
    show ?thesis
    proof (cases err)
      case (Some e)
      have "fst (callFunc_body env reqBody st) = ?st3"
        using \<open>Codec (opts st) = Some cdc\<close> p Inr rt Some by (simp add: callFunc_body_def Let_def)
      then show ?thesis using t3 by simp
    next
      case None
      obtain m' rspBodyBuf derr where d: "Decode cdc (msg ?st3) rspBuf = (m', rspBodyBuf, derr)"
        by (cases "Decode cdc (msg ?st3) rspBuf") auto
      let ?st4 = "(emit (EvDecode rspBuf) ?st3)\<lparr>msg := m'\<rparr>"
      have t4: "filter isReport (trace ?st4) = filter isReport (trace st)"
        using t3 by (simp add: emit_def)
      show ?thesis
      proof (cases derr)
        case (Some e)
        have "fst (callFunc_body env reqBody st) = ?st4"
          using \<open>Codec (opts st) = Some cdc\<close> p Inr rt None d Some
          by (simp add: callFunc_body_def Let_def)
        then show ?thesis using t4 by simp
      next
        case n: None
        have "fst (callFunc_body env reqBody st) = fst (processResponseBuf env rspBodyBuf ?st4)"
          using \<open>Codec (opts st) = Some cdc\<close> p Inr rt None d n
          by (simp add: callFunc_body_def Let_def)
        then show ?thesis using t4 processResponseBuf_no_report[of env rspBodyBuf ?st4] by simp
      qed
    qed
  qed
qed

lemma callFunc_no_report:
  "filter isReport (trace (fst (callFunc env reqBody st))) = filter isReport (trace st)"
  using callFunc_body_no_report[of env reqBody st]
  by (cases "callFunc_body env reqBody st") (simp add: callFunc_def emit_def)

lemma report_after_next:
  assumes sel: "selectNode env st = (st1, Inr node)"
    and st1': "st1' = st1\<lparr>msg := ensureMsgRemoteAddr env (msg st1)
                              (findFirstNonEmpty env (Network node) (Network_opt (opts st1)))
                              (Address node)\<rparr>"
    and nx: "nxt st1' = (st2, err)"
    and cost: "cost = now st2 - now st1"
  shows "\<exists>rep addr.
           trace (fst (selectorFilter env nxt st)) =
             trace st2 @ [EvReport node cost rep, EvNodeSet node addr cost] \<and>
           (rep \<noteq> None) =
             (err \<noteq> None \<and>
              ((\<exists>e. err = Some (ErrsError e) \<and> Type e = ErrorTypeFramework \<and>
                     (Code e = RetClientConnectFail \<or> Code e = RetClientTimeout \<or> Code e = RetClientNetErr)) \<or>
               shouldErrReportToSelector (opts st2) err)) \<and>
           (rep = None \<or> rep = snd (selectorFilter env nxt st))"
proof -
  have b: "now st1' = now st1" using st1' by simp
  have fne: "(frameworkNetError err \<noteq> None) =
               (\<exists>e. err = Some (ErrsError e) \<and> Type e = ErrorTypeFramework \<and>
                     (Code e = RetClientConnectFail \<or> Code e = RetClientTimeout \<or> Code e = RetClientNetErr))"
    by (auto simp: frameworkNetError_def split: option.splits error.splits)
  let ?r = "callNextAndReport env node nxt st1"
  have sf: "trace (fst (selectorFilter env nxt st)) = trace (fst ?r)"
           "snd (selectorFilter env nxt st) = snd ?r"
    using sel by (simp_all add: selectorFilter_def Let_def)
  show ?thesis
  proof (cases "frameworkNetError err")
    case (Some e)
    let ?rep = "Some (ErrsError (e\<lparr>Msg := Msg e @ '', cost:'' @ Duration_String env cost\<rparr>))"
    have e: "err \<noteq> None" using Some by (cases err) (auto simp: frameworkNetError_def)
    have "\<exists>addr. trace (fst ?r) = trace st2 @ [EvReport node cost ?rep, EvNodeSet node addr cost] \<and>
                 snd ?r = ?rep"
      using Some nx st1' cost b
      by (simp add: callNextAndReport_def Let_def emit_def split: option.splits)
    then show ?thesis using Some fne e sf by auto
  next
    case None
    show ?thesis
    proof (cases "shouldErrReportToSelector (opts st2) err")
      case True
      have "\<exists>addr. trace (fst ?r) = trace st2 @ [EvReport node cost err, EvNodeSet node addr cost] \<and>
                   snd ?r = err"
        using None True nx st1' cost b
        by (simp add: callNextAndReport_def Let_def emit_def split: option.splits)
      then show ?thesis using None True fne sf by auto
    next
      case False
      have "\<exists>addr. trace (fst ?r) = trace st2 @ [EvReport node cost None, EvNodeSet node addr cost]"
        using None False nx st1' cost b
        by (simp add: callNextAndReport_def Let_def emit_def split: option.splits)
      then show ?thesis using None False fne sf by auto
    qed
  qed
qed

text \<open>
  Claim C2, amended. For every call in which \<^verbatim>\<open>selectNode\<close> yields a node,
  \<^verbatim>\<open>selectorFilter\<close> invokes \<^verbatim>\<open>Selector.Report\<close> exactly once: node selection
  adds no report before \<^verbatim>\<open>next\<close> is called, and after \<^verbatim>\<open>next\<close> has returned the
  filter adds one report (it follows everything in the trace that \<^verbatim>\<open>next\<close> left)
  before it, and so \<^verbatim>\<open>Invoke\<close>, returns; when \<^verbatim>\<open>next\<close> itself reports nothing, as
  \<^verbatim>\<open>callFunc\<close> does, that is the one report of the whole call. The cost reported is the
  clock after \<^verbatim>\<open>next\<close> minus the clock before it. The reported error is non-nil iff
  the error from \<^verbatim>\<open>next\<close> is non-nil and is a framework error of kind
  \<^verbatim>\<open>ClientConnectFail\<close>, \<^verbatim>\<open>ClientTimeout\<close> or \<^verbatim>\<open>ClientNetErr\<close> or
  \<^verbatim>\<open>shouldErrReportToSelector\<close> holds of it; a non-nil reported error is the error
  that the filter returns. When node selection fails, in particular when the context is
  cancelled or past its deadline after \<^verbatim>\<open>Select\<close>, the filter invokes no
  \<^verbatim>\<open>Report\<close>, whatever \<^verbatim>\<open>next\<close> is.
\<close>

theorem report_once_after_next:
  assumes sel: "selectNode env st = (st1, Inr node)"
    and st1': "st1' = st1\<lparr>msg := ensureMsgRemoteAddr env (msg st1)
                              (findFirstNonEmpty env (Network node) (Network_opt (opts st1)))
                              (Address node)\<rparr>"
    and nx: "nxt st1' = (st2, err)"
    and cost: "cost = now st2 - now st1"
  shows "filter isReport (trace st1') = filter isReport (trace st) \<and>
         (\<exists>rep addr.
            trace (fst (selectorFilter env nxt st)) =
              trace st2 @ [EvReport node cost rep, EvNodeSet node addr cost] \<and>
            filter isReport (trace (fst (selectorFilter env nxt st))) =
              filter isReport (trace st2) @ [EvReport node cost rep] \<and>
            (filter isReport (trace st2) = filter isReport (trace st1') \<longrightarrow>
               filter isReport (trace (fst (selectorFilter env nxt st))) =
                 filter isReport (trace st) @ [EvReport node cost rep]) \<and>
            (rep \<noteq> None) =
              (err \<noteq> None \<and>
               ((\<exists>e. err = Some (ErrsError e) \<and> Type e = ErrorTypeFramework \<and>
                      (Code e = RetClientConnectFail \<or> Code e = RetClientTimeout \<or> Code e = RetClientNetErr)) \<or>
                shouldErrReportToSelector (opts st2) err)) \<and>
            (rep = None \<or> rep = snd (selectorFilter env nxt st))) \<and>
         (\<forall>reqBody s. filter isReport (trace (fst (callFunc env reqBody s))) = filter isReport (trace s)) \<and>
         (\<forall>s e nx'. snd (selectNode env s) = Inl e \<longrightarrow>
            filter isReport (trace (fst (selectorFilter env nx' s))) = filter isReport (trace s)) \<and>
         (\<forall>s c nx'. ctxErr s = Some c \<longrightarrow>
            filter isReport (trace (fst (selectorFilter env nx' s))) = filter isReport (trace s))"
proof -
  have a: "filter isReport (trace st1') = filter isReport (trace st)"
    using selectNode_no_report[of env st] sel st1' by simp
  from report_after_next[where nxt = nxt and st1' = st1' and cost = cost, OF sel st1' nx cost]
  obtain rep addr where
    r: "trace (fst (selectorFilter env nxt st)) =
          trace st2 @ [EvReport node cost rep, EvNodeSet node addr cost]"
       "(rep \<noteq> None) =
          (err \<noteq> None \<and>
           ((\<exists>e. err = Some (ErrsError e) \<and> Type e = ErrorTypeFramework \<and>
                  (Code e = RetClientConnectFail \<or> Code e = RetClientTimeout \<or> Code e = RetClientNetErr)) \<or>
            shouldErrReportToSelector (opts st2) err))"
       "rep = None \<or> rep = snd (selectorFilter env nxt st)"
    by blast
  have f: "filter isReport (trace (fst (selectorFilter env nxt st))) =
             filter isReport (trace st2) @ [EvReport node cost rep]"
    unfolding r(1) by simp
  have g: "filter isReport (trace st2) = filter isReport (trace st1') \<longrightarrow>
             filter isReport (trace (fst (selectorFilter env nxt st))) =
               filter isReport (trace st) @ [EvReport node cost rep]"
    using f a by simp
  have b: "\<exists>rep addr.
            trace (fst (selectorFilter env nxt st)) =
              trace st2 @ [EvReport node cost rep, EvNodeSet node addr cost] \<and>
            filter isReport (trace (fst (selectorFilter env nxt st))) =
              filter isReport (trace st2) @ [EvReport node cost rep] \<and>
            (filter isReport (trace st2) = filter isReport (trace st1') \<longrightarrow>
               filter isReport (trace (fst (selectorFilter env nxt st))) =
                 filter isReport (trace st) @ [EvReport node cost rep]) \<and>
            (rep \<noteq> None) =
              (err \<noteq> None \<and>
               ((\<exists>e. err = Some (ErrsError e) \<and> Type e = ErrorTypeFramework \<and>
                      (Code e = RetClientConnectFail \<or> Code e = RetClientTimeout \<or> Code e = RetClientNetErr)) \<or>
                shouldErrReportToSelector (opts st2) err)) \<and>
            (rep = None \<or> rep = snd (selectorFilter env nxt st))"
  proof (intro exI conjI)
    show "trace (fst (selectorFilter env nxt st)) =
            trace st2 @ [EvReport node cost rep, EvNodeSet node addr cost]"
      by (rule r(1))
    show "filter isReport (trace (fst (selectorFilter env nxt st))) =
            filter isReport (trace st2) @ [EvReport node cost rep]"
      by (rule f)
    show "filter isReport (trace st2) = filter isReport (trace st1') \<longrightarrow>
            filter isReport (trace (fst (selectorFilter env nxt st))) =
              filter isReport (trace st) @ [EvReport node cost rep]"
      by (rule g)
    show "(rep \<noteq> None) =
            (err \<noteq> None \<and>
             ((\<exists>e. err = Some (ErrsError e) \<and> Type e = ErrorTypeFramework \<and>
                    (Code e = RetClientConnectFail \<or> Code e = RetClientTimeout \<or> Code e = RetClientNetErr)) \<or>
              shouldErrReportToSelector (opts st2) err))"
      by (rule r(2))
    show "rep = None \<or> rep = snd (selectorFilter env nxt st)"
      by (rule r(3))
  qed
  have c: "\<forall>reqBody s. filter isReport (trace (fst (callFunc env reqBody s))) = filter isReport (trace s)"
    by (intro allI) (rule callFunc_no_report)
  have d: "\<forall>s e nx'. snd (selectNode env s) = Inl e \<longrightarrow>
            filter isReport (trace (fst (selectorFilter env nx' s))) = filter isReport (trace s)"
    by (intro allI impI) (rule selectorFilter_failed_no_report)
  have e: "\<forall>s c nx'. ctxErr s = Some c \<longrightarrow>
            filter isReport (trace (fst (selectorFilter env nx' s))) = filter isReport (trace s)"
  proof (intro allI impI)
    fix s :: call_state and c nx'
    assume "ctxErr s = Some c"
    from selectNode_ctxErr[OF this, of env] obtain x where "snd (selectNode env s) = Inl x"
      by blast
    then show "filter isReport (trace (fst (selectorFilter env nx' s))) = filter isReport (trace s)"
      by (rule selectorFilter_failed_no_report)
  qed
  show ?thesis by (intro conjI) (rule a b c d e)+
qed

theorem report_once_after_next_witness:
  "snd (selectNode stdEnv initState) = Inr node1 \<and>
   snd (slowNext ((fst (selectNode stdEnv initState))\<lparr>msg := ensureMsgRemoteAddr stdEnv
          (msg (fst (selectNode stdEnv initState)))
          (findFirstNonEmpty stdEnv (Network node1) (Network_opt (opts (fst (selectNode stdEnv initState)))))
          (Address node1)\<rparr>)) = Some (ErrsError timeoutErr) \<and>
   filter isReport (trace (fst (selectorFilter stdEnv slowNext initState))) =
     [EvReport node1 50 (Some (ErrsError (timeoutErr\<lparr>Msg := ''read frame timeout, cost:50ms''\<rparr>)))] \<and>
   length (filter isReport (trace (fst (selectorFilter stdEnv slowNext initState)))) = 1 \<and>
   snd (selectorFilter stdEnv slowNext initState) =
     Some (ErrsError (timeoutErr\<lparr>Msg := ''read frame timeout, cost:50ms''\<rparr>)) \<and>
   ctxErr canceledState = Some Canceled \<and>
   filter isReport (trace (fst (selectorFilter stdEnv slowNext canceledState))) = [] \<and>
   snd (selectorFilter stdEnv slowNext canceledState) =
     Some (NewFrameError RetClientCanceled ''selector canceled after Select: context canceled'')"
proof -
  let ?s1 = "fst (selectNode stdEnv initState)"
  let ?s1' = "?s1\<lparr>msg := ensureMsgRemoteAddr stdEnv (msg ?s1)
                (findFirstNonEmpty stdEnv (Network node1) (Network_opt (opts ?s1))) (Address node1)\<rparr>"
  let ?s2 = "fst (slowNext ?s1')"
  have g1: "snd (selectNode stdEnv initState) = Inr node1"
    by (simp add: config_defs selector_defs)
  have h1: "selectNode stdEnv initState = (?s1, Inr node1)"
    using g1 by (simp add: prod_eq_iff)
  have g3: "snd (slowNext ?s1') = Some (ErrsError timeoutErr)"
    by (simp add: slowNext_def)
  have h3: "slowNext ?s1' = (?s2, Some (ErrsError timeoutErr))"
    using g3 by (simp add: prod_eq_iff)
  have n: "now ?s2 - now ?s1 = 50" by (simp add: slowNext_def)
  have t: "filter isReport (trace ?s2) = filter isReport (trace ?s1')" "trace initState = []"
    by (simp_all add: slowNext_def config_defs)
  have ce: "ctxErr canceledState = Some Canceled" "trace canceledState = []"
    by (simp_all add: canceledState_def config_defs)
  note A = report_once_after_next[where env = stdEnv and nxt = slowNext and st1' = "?s1'"
         and cost = "now ?s2 - now ?s1", OF h1 refl h3 refl]
  from A[THEN conjunct2, THEN conjunct1] obtain rep addr where
    r0: "filter isReport (trace ?s2) = filter isReport (trace ?s1') \<longrightarrow>
           filter isReport (trace (fst (selectorFilter stdEnv slowNext initState))) =
             filter isReport (trace initState) @ [EvReport node1 (now ?s2 - now ?s1) rep]"
    by (elim exE conjE)
  have r: "filter isReport (trace (fst (selectorFilter stdEnv slowNext initState))) =
             [EvReport node1 (now ?s2 - now ?s1) rep]"
    using r0 t by simp
  have c1: "length (filter isReport (trace (fst (selectorFilter stdEnv slowNext initState)))) = 1"
    unfolding r by simp
  have c4: "filter isReport (trace (fst (selectorFilter stdEnv slowNext canceledState))) = []"
    using A[THEN conjunct2, THEN conjunct2, THEN conjunct2, THEN conjunct2, rule_format, OF ce(1),
            of slowNext] ce(2) by simp
  have c2: "filter isReport (trace (fst (selectorFilter stdEnv slowNext initState))) =
              [EvReport node1 50 (Some (ErrsError (timeoutErr\<lparr>Msg := ''read frame timeout, cost:50ms''\<rparr>)))]"
    by (simp add: slowNext_def timeoutErr_def config_defs selector_defs)
  have c3: "snd (selectorFilter stdEnv slowNext initState) =
              Some (ErrsError (timeoutErr\<lparr>Msg := ''read frame timeout, cost:50ms''\<rparr>))"
    by (simp add: slowNext_def timeoutErr_def config_defs selector_defs)
  have c5: "snd (selectorFilter stdEnv slowNext canceledState) =
     Some (NewFrameError RetClientCanceled ''selector canceled after Select: context canceled'')"
    by (simp add: canceledState_def config_defs selector_defs)
  show ?thesis using g1 g3 c1 c2 c3 c4 c5 ce(1) by simp
qed

subsection \<open>The full-link timeout\<close>

lemma updateMsg_options:
  "fixTimeout (snd (updateMsg env m os)) = fixTimeout os \<and>
   Timeout (snd (updateMsg env m os)) = Timeout os"
  by (simp add: updateMsg_def Let_def)

lemma fixFilters_options:
  "fixTimeout (snd (fixFilters env os)) = fixTimeout os"
  by (simp add: fixFilters_def Let_def)

lemma Invoke_setup_fixTimeout:
  assumes go: "getOptions env (msg st) opt = Inr os"
    and stp: "Invoke_setup env opt st = Inr (filters, st1)"
  shows "fixTimeout (opts st1) =
           (if (case deadline st of Some d \<Rightarrow> Timeout os \<le> 0 \<or> d < now st + Timeout os | None \<Rightarrow> False)
            then mayConvert2FullLinkTimeout else fixTimeout os)"
proof -
  obtain m1 os1 where u: "updateMsg env (msg st) os = (m1, os1)"
    by (cases "updateMsg env (msg st) os") auto
  from updateMsg_options[of env "msg st" os] u
  have f1: "fixTimeout os1 = fixTimeout os" "Timeout os1 = Timeout os" by simp_all
  let ?os2 = "(case deadline st of
                 Some d \<Rightarrow> if Timeout os1 \<le> 0 \<or> d - now st < Timeout os1
                           then os1\<lparr>fixTimeout := mayConvert2FullLinkTimeout\<rparr> else os1
               | None \<Rightarrow> os1)"
  have s: "opts st1 = snd (fixFilters env ?os2)"
    using go u stp by (auto simp: Invoke_setup_def Let_def split: prod.splits)
  have "fixTimeout (opts st1) = fixTimeout ?os2"
    unfolding s by (rule fixFilters_options)
  also have "\<dots> = (if (case deadline st of Some d \<Rightarrow> Timeout os \<le> 0 \<or> d < now st + Timeout os | None \<Rightarrow> False)
            then mayConvert2FullLinkTimeout else fixTimeout os)"
    using f1 by (auto split: option.splits)
  finally show ?thesis .
qed

text \<open>
  Claim C4. Let \<open>os\<close> be the options that \<^verbatim>\<open>getOptions\<close> built and \<open>st1\<close> the state
  that \<^verbatim>\<open>Invoke\<close> hands to the filter chain. If the incoming context carries a
  deadline and either \<^verbatim>\<open>Options.Timeout\<close> is at most 0 or the deadline lies before
  now plus \<^verbatim>\<open>Options.Timeout\<close>, the call's \<^verbatim>\<open>fixTimeout\<close> is
  \<^verbatim>\<open>mayConvert2FullLinkTimeout\<close>, which returns a \<^verbatim>\<open>ClientTimeout\<close> framework error
  as \<^verbatim>\<open>ClientFullLinkTimeout\<close>. Otherwise \<^verbatim>\<open>fixTimeout\<close> is what it was, so the
  identity stays the identity and returns the \<^verbatim>\<open>ClientTimeout\<close> error unchanged.
\<close>

theorem fullLink_fixTimeout:
  assumes go: "getOptions env (msg st) opt = Inr os"
    and stp: "Invoke_setup env opt st = Inr (filters, st1)"
    and fullLink: "fullLink = (case deadline st of
                                 Some d \<Rightarrow> Timeout os \<le> 0 \<or> d < now st + Timeout os
                               | None \<Rightarrow> False)"
    and e: "Type e = ErrorTypeFramework \<and> Code e = RetClientTimeout"
  shows "(fullLink \<longrightarrow>
            fixTimeout (opts st1) = mayConvert2FullLinkTimeout \<and>
            fixTimeout (opts st1) (Some (ErrsError e)) =
              Some (ErrsError (e\<lparr>Code := RetClientFullLinkTimeout\<rparr>))) \<and>
         (\<not> fullLink \<longrightarrow> fixTimeout (opts st1) = fixTimeout os) \<and>
         (\<not> fullLink \<and> fixTimeout os = (\<lambda>err. err) \<longrightarrow>
            fixTimeout (opts st1) = (\<lambda>err. err) \<and>
            fixTimeout (opts st1) (Some (ErrsError e)) = Some (ErrsError e))"
  using Invoke_setup_fixTimeout[OF go stp] fullLink e
  by (auto simp: mayConvert2FullLinkTimeout_def)

theorem fullLink_fixTimeout_witness:
  "getOptions timeoutEnv (msg deadlineState) [] =
     Inr (baseOptions\<lparr>Timeout := 1000000000, Transport := timeoutTransport\<rparr>) \<and>
   deadline deadlineState = Some 21000 \<and> now deadlineState = 1000 \<and>
   fixTimeout (opts (snd (projr (Invoke_setup timeoutEnv [] deadlineState)))) = mayConvert2FullLinkTimeout \<and>
   snd (Invoke timeoutEnv [] ''req'' deadlineState) =
     Some (ErrsError (timeoutErr\<lparr>Code := RetClientFullLinkTimeout\<rparr>)) \<and>
   getOptions timeoutEnv (msg initState) [] =
     Inr (baseOptions\<lparr>Timeout := 1000000000, Transport := timeoutTransport\<rparr>) \<and>
   deadline initState = None \<and>
   fixTimeout (opts (snd (projr (Invoke_setup timeoutEnv [] initState)))) (Some (ErrsError timeoutErr)) =
     Some (ErrsError timeoutErr) \<and>
   snd (callFunc timeoutEnv ''req'' (snd (projr (Invoke_setup timeoutEnv [] initState)))) =
     Some (ErrsError timeoutErr)"
proof -
  let ?os = "baseOptions\<lparr>Timeout := 1000000000, Transport := timeoutTransport\<rparr>"
  let ?a = "projr (Invoke_setup timeoutEnv [] deadlineState)"
  let ?b = "projr (Invoke_setup timeoutEnv [] initState)"
  have g1: "getOptions timeoutEnv (msg deadlineState) [] = Inr ?os"
    by (simp add: timeoutEnv_def deadlineState_def config_defs invoke_defs)
  have g2: "getOptions timeoutEnv (msg initState) [] = Inr ?os"
    by (simp add: timeoutEnv_def config_defs invoke_defs)
  have isr: "isl (Invoke_setup timeoutEnv [] deadlineState) = False"
            "isl (Invoke_setup timeoutEnv [] initState) = False"
    by (simp_all add: timeoutEnv_def deadlineState_def config_defs invoke_defs Let_def)
  have s1: "Invoke_setup timeoutEnv [] deadlineState = Inr (fst ?a, snd ?a)"
    using isr(1) by (cases "Invoke_setup timeoutEnv [] deadlineState") auto
  have s2: "Invoke_setup timeoutEnv [] initState = Inr (fst ?b, snd ?b)"
    using isr(2) by (cases "Invoke_setup timeoutEnv [] initState") auto
  have v: "deadline deadlineState = Some 21000" "now deadlineState = 1000"
          "deadline initState = None" "Timeout ?os = 1000000000"
          "fixTimeout ?os = (\<lambda>err. err)"
          "Type timeoutErr = ErrorTypeFramework \<and> Code timeoutErr = RetClientTimeout"
    by (simp_all add: deadlineState_def timeoutErr_def config_defs)
  have f1: "True = (case deadline deadlineState of
                      Some d \<Rightarrow> Timeout ?os \<le> 0 \<or> d < now deadlineState + Timeout ?os
                    | None \<Rightarrow> False)"
    using v by simp
  have f2: "False = (case deadline initState of
                      Some d \<Rightarrow> Timeout ?os \<le> 0 \<or> d < now initState + Timeout ?os
                    | None \<Rightarrow> False)"
    using v by simp
  note A = fullLink_fixTimeout[OF g1 s1 f1 v(6)]
  note B = fullLink_fixTimeout[OF g2 s2 f2 v(6)]
  have c1: "fixTimeout (opts (snd ?a)) = mayConvert2FullLinkTimeout"
    using A by simp
  have c2: "fixTimeout (opts (snd ?b)) (Some (ErrsError timeoutErr)) = Some (ErrsError timeoutErr)"
    using B v(5) by simp
  have c3: "snd (Invoke timeoutEnv [] ''req'' deadlineState) =
              Some (ErrsError (timeoutErr\<lparr>Code := RetClientFullLinkTimeout\<rparr>))"
    by (simp add: timeoutEnv_def deadlineState_def timeoutErr_def timeoutTransport_def
          mayConvert2FullLinkTimeout_def config_defs invoke_defs selector_defs callFunc_defs)
  have c4: "snd (callFunc timeoutEnv ''req'' (snd ?b)) = Some (ErrsError timeoutErr)"
    by (simp add: timeoutEnv_def timeoutErr_def timeoutTransport_def
          config_defs invoke_defs callFunc_defs)
  show ?thesis using g1 g2 v(1-3) c1 c2 c3 c4 by simp
qed

subsection \<open>Which errors pass through \<^verbatim>\<open>fixTimeout\<close>\<close>

text \<open>
  Claim C1, as stated, fails. Under a full-link deadline the call's adapter is
  \<^verbatim>\<open>mayConvert2FullLinkTimeout\<close>; an interceptor of the chain returns a
  \<^verbatim>\<open>ClientTimeout\<close> without calling \<^verbatim>\<open>next\<close>, and \<^verbatim>\<open>Invoke\<close> returns that error as
  it is: no call of \<^verbatim>\<open>fixTimeout\<close> is in the trace, and the adapter would have
  re-tagged the error. Likewise the \<^verbatim>\<open>ClientRouteErr\<close> of a target that does not parse
  is returned before any adapter exists for the call.
\<close>

theorem unfixed_errors_counterexample:
  "snd (Invoke shortCircuitEnv [] ''req'' deadlineState) = Some (ErrsError timeoutErr) \<and>
   filter isFixTimeout (trace (fst (Invoke shortCircuitEnv [] ''req'' deadlineState))) = [] \<and>
   fixTimeout (opts (fst (Invoke shortCircuitEnv [] ''req'' deadlineState))) (Some (ErrsError timeoutErr)) =
     Some (ErrsError (timeoutErr\<lparr>Code := RetClientFullLinkTimeout\<rparr>)) \<and>
   snd (Invoke badTargetEnv [] ''req'' initState) =
     Some (NewFrameError RetClientRouteErr ''invalid target'') \<and>
   trace (fst (Invoke badTargetEnv [] ''req'' initState)) = []"
  by (simp add: shortCircuitEnv_def badTargetEnv_def deadlineState_def timeoutErr_def
        mayConvert2FullLinkTimeout_def config_defs invoke_defs NewFrameError_def)

lemma processResponseBuf_trace:
  "\<exists>evs. trace (fst (processResponseBuf env b st)) = trace st @ evs"
  by (simp add: response_defs split: prod.splits option.splits)

lemma callFunc_body_trace:
  "\<exists>evs. trace (fst (callFunc_body env reqBody st)) = trace st @ evs"
proof (cases "Codec (opts st)")
  case None
  then show ?thesis by (simp add: callFunc_body_def emit_def)
next
  case (Some cdc)
  obtain st1 r where p: "prepareRequestBuf env cdc reqBody st = (st1, r)"
    by (cases "prepareRequestBuf env cdc reqBody st") auto
  from prepareRequestBuf_state[OF p] obtain ev1 where t1: "trace st1 = trace st @ ev1" by blast
  show ?thesis
  proof (cases r)
    case (Inl err)
    then show ?thesis using Some p t1 by (simp add: callFunc_body_def)
  next
    case (Inr reqBuf)
    let ?st2 = "(if EnableMultiplexed (opts st1)
                 then st1\<lparr>opts := (opts st1)\<lparr>CallOptions :=
                        CallOptions (opts st1) @ [WithMsg, WithMultiplexed True]\<rparr>\<rparr>
                 else st1)"
    obtain m rspBuf err where rt:
      "RoundTrip (Transport (opts ?st2)) (msg ?st2) reqBuf (CallOptions (opts ?st2)) = (m, rspBuf, err)"
      by (cases "RoundTrip (Transport (opts ?st2)) (msg ?st2) reqBuf (CallOptions (opts ?st2))") auto
    let ?st3 = "(emit (EvRoundTrip reqBuf (CallOptions (opts ?st2))) ?st2)\<lparr>msg := m\<rparr>"
    have t3: "trace ?st3 = trace st @ ev1 @ [EvRoundTrip reqBuf (CallOptions (opts ?st2))]"
      using t1 by (simp add: emit_def)
    show ?thesis
    proof (cases err)
      case (Some e)
      have "fst (callFunc_body env reqBody st) = ?st3"
        using \<open>Codec (opts st) = Some cdc\<close> p Inr rt Some by (simp add: callFunc_body_def Let_def)
      then show ?thesis using t3 by simp
    next
      case None
      obtain m' rspBodyBuf derr where d: "Decode cdc (msg ?st3) rspBuf = (m', rspBodyBuf, derr)"
        by (cases "Decode cdc (msg ?st3) rspBuf") auto
      let ?st4 = "(emit (EvDecode rspBuf) ?st3)\<lparr>msg := m'\<rparr>"
      have t4: "trace ?st4 = trace st @ ev1 @ [EvRoundTrip reqBuf (CallOptions (opts ?st2)), EvDecode rspBuf]"
        using t3 by (simp add: emit_def)
      show ?thesis
      proof (cases derr)
        case (Some e)
        have "fst (callFunc_body env reqBody st) = ?st4"
          using \<open>Codec (opts st) = Some cdc\<close> p Inr rt None d Some
          by (simp add: callFunc_body_def Let_def)
        then show ?thesis using t4 by simp
      next
        case n: None
        have "fst (callFunc_body env reqBody st) = fst (processResponseBuf env rspBodyBuf ?st4)"
          using \<open>Codec (opts st) = Some cdc\<close> p Inr rt None d n
          by (simp add: callFunc_body_def Let_def)
        moreover from processResponseBuf_trace[of env rspBodyBuf ?st4] obtain ev2 where
          "trace (fst (processResponseBuf env rspBodyBuf ?st4)) = trace ?st4 @ ev2" by blast
        ultimately show ?thesis using t4 by simp
      qed
    qed
  qed
qed

lemma callFunc_trace:
  "\<exists>evs. trace (fst (callFunc env reqBody st)) =
           trace st @ evs @ [EvFixTimeout (snd (callFunc_body env reqBody st)) (snd (callFunc env reqBody st))]"
  using callFunc_body_trace[of env reqBody st]
  by (auto simp: callFunc_def emit_def split: prod.splits)

lemma selectNode_trace:
  "\<exists>evs. trace (fst (selectNode env st)) = trace st @ evs"
  by (simp add: selectNode_def getNode_def emit_def Let_def split: sum.splits)

lemma Invoke_setup_trace:
  "Invoke_setup env opt st = Inr (fs, st1) \<Longrightarrow> trace st1 = trace st"
  by (auto simp: Invoke_setup_def Let_def split: sum.splits prod.splits)

lemma callNextAndReport_result:
  assumes "nxt (st\<lparr>msg := ensureMsgRemoteAddr env (msg st)
                    (findFirstNonEmpty env (Network node) (Network_opt (opts st))) (Address node)\<rparr>) = (st2, r)"
  shows "(\<exists>post. trace (fst (callNextAndReport env node nxt st)) = trace st2 @ post) \<and>
         (snd (callNextAndReport env node nxt st) = r \<or>
          (\<exists>e sfx. r = Some (ErrsError e) \<and>
                   snd (callNextAndReport env node nxt st) = Some (ErrsError (e\<lparr>Msg := Msg e @ sfx\<rparr>))))"
proof (cases "frameworkNetError r")
  case None
  then show ?thesis using assms
    by (simp add: callNextAndReport_def Let_def emit_def split: option.splits)
next
  case (Some e)
  then have r: "r = Some (ErrsError e)"
    by (auto simp: frameworkNetError_def split: option.splits error.splits if_splits)
  let ?sfx = "'', cost:'' @ Duration_String env (now st2 - now st)"
  have a: "\<exists>post. trace (fst (callNextAndReport env node nxt st)) = trace st2 @ post"
    using assms Some r by (simp add: callNextAndReport_def Let_def emit_def split: option.splits)
  have b: "snd (callNextAndReport env node nxt st) = Some (ErrsError (e\<lparr>Msg := Msg e @ ?sfx\<rparr>))"
    using assms Some r by (simp add: callNextAndReport_def Let_def emit_def split: option.splits)
  show ?thesis using a b r by blast
qed

text \<open>
  Claim C1, amended. Every error that \<^verbatim>\<open>callFunc\<close> returns is the output of the
  call's \<^verbatim>\<open>fixTimeout\<close> adapter, applied as the last step of \<^verbatim>\<open>callFunc\<close>; every
  error of node selection is passed through the adapter by \<^verbatim>\<open>selectorFilter\<close> before
  it returns; hence, when the effective chain is \<open>[SelectorFilter]\<close>, the error that
  \<^verbatim>\<open>Invoke\<close> returns is the output of a \<^verbatim>\<open>fixTimeout\<close> call made during the call,
  with at most the cost suffix that \<^verbatim>\<open>selectorFilter\<close> appends to its message. The
  other errors are returned by \<^verbatim>\<open>Invoke\<close> as they are: when \<^verbatim>\<open>getOptions\<close> fails,
  \<^verbatim>\<open>Invoke\<close> returns its \<^verbatim>\<open>ClientRouteErr\<close> with the state untouched, so without any
  call of \<^verbatim>\<open>fixTimeout\<close>; and when the chain starts with an interceptor of the user,
  the result of \<^verbatim>\<open>Invoke\<close> is the result of that interceptor, so an interceptor that
  returns without calling \<^verbatim>\<open>next\<close> has its state and error returned unchanged.
\<close>

theorem errors_pass_fixTimeout:
  "(trace (fst (callFunc env reqBody st)) =
      trace (fst (callFunc_body env reqBody st)) @
      [EvFixTimeout (snd (callFunc_body env reqBody st)) (snd (callFunc env reqBody st))] \<and>
    snd (callFunc env reqBody st) =
      fixTimeout (opts (fst (callFunc_body env reqBody st))) (snd (callFunc_body env reqBody st))) \<and>
   (\<forall>st1 err. selectNode env st = (st1, Inl err) \<longrightarrow>
      snd (selectorFilter env nxt st) = fixTimeout (opts st1) (Some err) \<and>
      trace (fst (selectorFilter env nxt st)) =
        trace st1 @ [EvFixTimeout (Some err) (snd (selectorFilter env nxt st))]) \<and>
   (\<forall>st1. Invoke_setup env opt st = Inr ([SelectorFilter], st1) \<longrightarrow>
      (\<exists>pre post a r.
         trace (fst (Invoke env opt reqBody st)) = trace st @ pre @ [EvFixTimeout a r] @ post \<and>
         (snd (Invoke env opt reqBody st) = r \<or>
          (\<exists>e sfx. r = Some (ErrsError e) \<and>
                   snd (Invoke env opt reqBody st) = Some (ErrsError (e\<lparr>Msg := Msg e @ sfx\<rparr>)))))) \<and>
   (\<forall>err. getOptions env (msg st) opt = Inl err \<longrightarrow>
      Invoke env opt reqBody st = (st, Some err) \<and>
      (\<exists>m. err = NewFrameError RetClientRouteErr m)) \<and>
   (\<forall>i fs st1. Invoke_setup env opt st = Inr (UserFilter i # fs, st1) \<longrightarrow>
      Invoke env opt reqBody st =
        userFilters env i (ClientChain_Filter env fs (callFunc env reqBody)) st1 \<and>
      (\<forall>st2 r. (\<forall>nx. userFilters env i nx st1 = (st2, r)) \<longrightarrow>
         Invoke env opt reqBody st = (st2, r)))"
proof (intro conjI allI impI)
  show "trace (fst (callFunc env reqBody st)) =
      trace (fst (callFunc_body env reqBody st)) @
      [EvFixTimeout (snd (callFunc_body env reqBody st)) (snd (callFunc env reqBody st))]"
    by (simp add: callFunc_def emit_def split: prod.splits)
  show "snd (callFunc env reqBody st) =
      fixTimeout (opts (fst (callFunc_body env reqBody st))) (snd (callFunc_body env reqBody st))"
    by (simp add: callFunc_def emit_def split: prod.splits)
next
  fix st1 err assume s: "selectNode env st = (st1, Inl err)"
  show "snd (selectorFilter env nxt st) = fixTimeout (opts st1) (Some err)"
    using s by (simp add: selectorFilter_def Let_def)
  show "trace (fst (selectorFilter env nxt st)) =
        trace st1 @ [EvFixTimeout (Some err) (snd (selectorFilter env nxt st))]"
    using s by (simp add: selectorFilter_def Let_def emit_def)
next
  fix st1 assume su: "Invoke_setup env opt st = Inr ([SelectorFilter], st1)"
  have inv: "Invoke env opt reqBody st = selectorFilter env (callFunc env reqBody) st1"
    using su by (simp add: Invoke_def)
  have t0: "trace st1 = trace st" using Invoke_setup_trace[OF su] .
  obtain sa ra where sn: "selectNode env st1 = (sa, ra)" by (cases "selectNode env st1") auto
  from selectNode_trace[of env st1] sn obtain ev1 where t1: "trace sa = trace st @ ev1"
    using t0 by auto
  show "\<exists>pre post a r.
         trace (fst (Invoke env opt reqBody st)) = trace st @ pre @ [EvFixTimeout a r] @ post \<and>
         (snd (Invoke env opt reqBody st) = r \<or>
          (\<exists>e sfx. r = Some (ErrsError e) \<and>
                   snd (Invoke env opt reqBody st) = Some (ErrsError (e\<lparr>Msg := Msg e @ sfx\<rparr>))))"
  proof (cases ra)
    case (Inl err)
    have "trace (fst (Invoke env opt reqBody st)) =
            trace st @ ev1 @ [EvFixTimeout (Some err) (fixTimeout (opts sa) (Some err))] @ []"
         "snd (Invoke env opt reqBody st) = fixTimeout (opts sa) (Some err)"
      using sn Inl t1 unfolding inv by (simp_all add: selectorFilter_def Let_def emit_def)
    then show ?thesis by blast
  next
    case (Inr node)
    let ?sb = "sa\<lparr>msg := ensureMsgRemoteAddr env (msg sa)
                 (findFirstNonEmpty env (Network node) (Network_opt (opts sa))) (Address node)\<rparr>"
    let ?c = "callFunc env reqBody ?sb"
    from callFunc_trace[of env reqBody ?sb] obtain ev2 where
      t2: "trace (fst ?c) = trace st @ (ev1 @ ev2) @ [EvFixTimeout (snd (callFunc_body env reqBody ?sb)) (snd ?c)]"
      using t1 by auto
    have c: "callFunc env reqBody ?sb = (fst ?c, snd ?c)" by simp
    from callNextAndReport_result[where nxt = "callFunc env reqBody" and st = sa and env = env
           and node = node, OF c] obtain post where
      p: "trace (fst (callNextAndReport env node (callFunc env reqBody) sa)) = trace (fst ?c) @ post"
      and q: "snd (callNextAndReport env node (callFunc env reqBody) sa) = snd ?c \<or>
          (\<exists>e sfx. snd ?c = Some (ErrsError e) \<and>
                   snd (callNextAndReport env node (callFunc env reqBody) sa) = Some (ErrsError (e\<lparr>Msg := Msg e @ sfx\<rparr>)))"
      by blast
    have tr: "trace (fst (Invoke env opt reqBody st)) = trace (fst (callNextAndReport env node (callFunc env reqBody) sa))"
      and rs: "snd (Invoke env opt reqBody st) = snd (callNextAndReport env node (callFunc env reqBody) sa)"
      using sn Inr unfolding inv by (simp_all add: selectorFilter_def Let_def)
    have "trace (fst (Invoke env opt reqBody st)) =
            trace st @ (ev1 @ ev2) @ [EvFixTimeout (snd (callFunc_body env reqBody ?sb)) (snd ?c)] @ post"
      unfolding tr p t2 by simp
    then show ?thesis using q rs by metis
  qed
next
  fix err assume g: "getOptions env (msg st) opt = Inl err"
  show "Invoke env opt reqBody st = (st, Some err)"
    using g by (simp add: Invoke_def Invoke_setup_def)
  show "\<exists>m. err = NewFrameError RetClientRouteErr m"
    using g by (auto simp: getOptions_def Let_def split: sum.splits)
next
  fix i fs st1 assume su: "Invoke_setup env opt st = Inr (UserFilter i # fs, st1)"
  show "Invoke env opt reqBody st =
          userFilters env i (ClientChain_Filter env fs (callFunc env reqBody)) st1"
    using su by (simp add: Invoke_def)
next
  fix i fs st1 st2 r
  assume su: "Invoke_setup env opt st = Inr (UserFilter i # fs, st1)"
    and sc: "\<forall>nx. userFilters env i nx st1 = (st2, r)"
  show "Invoke env opt reqBody st = (st2, r)"
    using su sc by (simp add: Invoke_def)
qed

theorem errors_pass_fixTimeout_witness:
  "fst (projr (Invoke_setup timeoutEnv [] deadlineState)) = [SelectorFilter] \<and>
   snd (Invoke timeoutEnv [] ''req'' deadlineState) =
     Some (ErrsError (timeoutErr\<lparr>Code := RetClientFullLinkTimeout\<rparr>)) \<and>
   filter isFixTimeout (trace (fst (Invoke timeoutEnv [] ''req'' deadlineState))) =
     [EvFixTimeout (Some (ErrsError timeoutErr))
                   (Some (ErrsError (timeoutErr\<lparr>Code := RetClientFullLinkTimeout\<rparr>)))] \<and>
   (\<exists>pre post a r.
      trace (fst (Invoke timeoutEnv [] ''req'' deadlineState)) =
        trace deadlineState @ pre @ [EvFixTimeout a r] @ post) \<and>
   getOptions badTargetEnv (msg initState) [] =
     Inl (NewFrameError RetClientRouteErr ''invalid target'') \<and>
   Invoke badTargetEnv [] ''req'' initState =
     (initState, Some (NewFrameError RetClientRouteErr ''invalid target'')) \<and>
   fst (projr (Invoke_setup shortCircuitEnv [] deadlineState)) = [UserFilter 0, SelectorFilter] \<and>
   (\<forall>nx. userFilters shortCircuitEnv 0 nx (snd (projr (Invoke_setup shortCircuitEnv [] deadlineState))) =
           (snd (projr (Invoke_setup shortCircuitEnv [] deadlineState)), Some (ErrsError timeoutErr))) \<and>
   Invoke shortCircuitEnv [] ''req'' deadlineState =
     (snd (projr (Invoke_setup shortCircuitEnv [] deadlineState)), Some (ErrsError timeoutErr)) \<and>
   trace (snd (projr (Invoke_setup shortCircuitEnv [] deadlineState))) = []"
proof -
  let ?a = "projr (Invoke_setup timeoutEnv [] deadlineState)"
  let ?b = "projr (Invoke_setup shortCircuitEnv [] deadlineState)"
  have isr: "isl (Invoke_setup timeoutEnv [] deadlineState) = False"
    and g1: "fst ?a = [SelectorFilter]"
    by (simp_all add: timeoutEnv_def deadlineState_def config_defs invoke_defs Let_def)
  have s1: "Invoke_setup timeoutEnv [] deadlineState = Inr ([SelectorFilter], snd ?a)"
    using isr g1 by (cases "Invoke_setup timeoutEnv [] deadlineState") auto
  note T = errors_pass_fixTimeout[of timeoutEnv "''req''" deadlineState undefined "[]"]
  from T[THEN conjunct2, THEN conjunct2, THEN conjunct1, rule_format, OF s1]
  have c1: "\<exists>pre post a r.
      trace (fst (Invoke timeoutEnv [] ''req'' deadlineState)) =
        trace deadlineState @ pre @ [EvFixTimeout a r] @ post"
    by blast
  have c2: "snd (Invoke timeoutEnv [] ''req'' deadlineState) =
              Some (ErrsError (timeoutErr\<lparr>Code := RetClientFullLinkTimeout\<rparr>))"
    by (simp add: timeoutEnv_def deadlineState_def timeoutErr_def timeoutTransport_def
          mayConvert2FullLinkTimeout_def config_defs invoke_defs selector_defs callFunc_defs)
  have c3: "filter isFixTimeout (trace (fst (Invoke timeoutEnv [] ''req'' deadlineState))) =
     [EvFixTimeout (Some (ErrsError timeoutErr))
                   (Some (ErrsError (timeoutErr\<lparr>Code := RetClientFullLinkTimeout\<rparr>)))]"
    by (simp add: timeoutEnv_def deadlineState_def timeoutErr_def timeoutTransport_def
          mayConvert2FullLinkTimeout_def config_defs invoke_defs selector_defs callFunc_defs)
  have g4: "getOptions badTargetEnv (msg initState) [] =
              Inl (NewFrameError RetClientRouteErr ''invalid target'')"
    by (simp add: badTargetEnv_def config_defs getOptions_def getServiceInfoOptions_def Let_def)
  note U = errors_pass_fixTimeout[of badTargetEnv "''req''" initState undefined "[]"]
  have c4: "Invoke badTargetEnv [] ''req'' initState =
              (initState, Some (NewFrameError RetClientRouteErr ''invalid target''))"
    using U[THEN conjunct2, THEN conjunct2, THEN conjunct2, THEN conjunct1, rule_format, OF g4]
    by simp
  have isr2: "isl (Invoke_setup shortCircuitEnv [] deadlineState) = False"
    and g5: "fst ?b = [UserFilter 0, SelectorFilter]"
    and g7: "trace (snd ?b) = []"
    by (simp_all add: shortCircuitEnv_def deadlineState_def config_defs invoke_defs Let_def)
  have s2: "Invoke_setup shortCircuitEnv [] deadlineState = Inr (UserFilter 0 # [SelectorFilter], snd ?b)"
    using isr2 g5 by (cases "Invoke_setup shortCircuitEnv [] deadlineState") auto
  have g6: "\<forall>nx. userFilters shortCircuitEnv 0 nx (snd ?b) = (snd ?b, Some (ErrsError timeoutErr))"
    by (simp add: shortCircuitEnv_def)
  note V = errors_pass_fixTimeout[of shortCircuitEnv "''req''" deadlineState undefined "[]"]
  have c5: "Invoke shortCircuitEnv [] ''req'' deadlineState = (snd ?b, Some (ErrsError timeoutErr))"
    using V[THEN conjunct2, THEN conjunct2, THEN conjunct2, THEN conjunct2, rule_format, OF s2,
            THEN conjunct2, rule_format, OF g6[rule_format]]
    by simp
  show ?thesis
    using g1 c2 c3 c1 g4 c4 g5 g6 c5 g7 by (intro conjI) simp_all
qed

end
